theory Spec2Isabelle
  imports Main
begin

section \<open>JavaScript values\<close>

text \<open>
  The entry point (\<^verbatim>\<open>src/lib/ng-package/entry-point/entry-point.ts\<close>) reads two
  parsed JSON documents: \<^verbatim>\<open>packageJson: Record<string, any>\<close> and
  \<^verbatim>\<open>ngPackageJson: NgPackageConfig\<close>. Their values are modelled by \<open>jsval\<close>.
  An object is the list of its own properties. A number is kept as the text
  \<^verbatim>\<open>String(n)\<close> prints for it: the entry point never calculates with a number, it
  only tests its truthiness and prints it.

  Every exception the code can raise is a \<^verbatim>\<open>TypeError\<close>; a computation that may
  raise has the type \<open>error + 'a\<close>, with \<open>Inl\<close> for the raised error.
\<close>

datatype jsval =
    Undefined
  | Null
  | JBool bool
  | JNum string
  | JStr string
  | JArr "jsval list"
  | JObj "(string \<times> jsval) list"

datatype error = TypeError

text \<open>The \<^verbatim>\<open>typeof\<close> operator; \<^verbatim>\<open>typeof null\<close> is \<^verbatim>\<open>'object'\<close>.\<close>

fun typeof :: "jsval \<Rightarrow> string" where
  "typeof Undefined = ''undefined''"
| "typeof Null = ''object''"
| "typeof (JBool b) = ''boolean''"
| "typeof (JNum r) = ''number''"
| "typeof (JStr s) = ''string''"
| "typeof (JArr xs) = ''object''"
| "typeof (JObj kvs) = ''object''"

text \<open>
  Truthiness, as \<^verbatim>\<open>||\<close>, \<^verbatim>\<open>!!\<close> and \<^verbatim>\<open>if\<close> test it: \<^verbatim>\<open>undefined\<close>,
  \<^verbatim>\<open>null\<close>, \<^verbatim>\<open>false\<close>, zero, \<^verbatim>\<open>NaN\<close> and the empty string are falsy, every
  array and object (also the empty ones) is truthy.
\<close>

fun ToBoolean :: "jsval \<Rightarrow> bool" where
  "ToBoolean Undefined = False"
| "ToBoolean Null = False"
| "ToBoolean (JBool b) = b"
| "ToBoolean (JNum r) = (r \<noteq> ''0'' \<and> r \<noteq> ''NaN'')"
| "ToBoolean (JStr s) = (s \<noteq> [])"
| "ToBoolean (JArr xs) = True"
| "ToBoolean (JObj kvs) = True"

text \<open>\<^verbatim>\<open>Array.prototype.join\<close> on an array of strings.\<close>

fun join_strs :: "string \<Rightarrow> string list \<Rightarrow> string" where
  "join_strs sep [] = []"
| "join_strs sep [s] = s"
| "join_strs sep (s # t # ts) = s @ sep @ join_strs sep (t # ts)"

text \<open>
  \<^verbatim>\<open>String.prototype.split\<close> with a separator of one character: every occurrence
  splits, empty pieces are kept, and the empty string gives one empty piece.
\<close>

fun split :: "char \<Rightarrow> string \<Rightarrow> string list" where
  "split sep [] = [[]]"
| "split sep (c # cs) =
     (if c = sep then [] # split sep cs
      else (case split sep cs of
              [] \<Rightarrow> [[c]]
            | p # ps \<Rightarrow> (c # p) # ps))"

text \<open>
  The string a template literal \<^verbatim>\<open>`${v}`\<close> puts in for a value. An array prints its
  elements separated by commas, \<^verbatim>\<open>undefined\<close> and \<^verbatim>\<open>null\<close> elements as nothing. A
  plain object prints as \<^verbatim>\<open>[object Object]\<close>, unless it has an own property
  \<^verbatim>\<open>toString\<close>: a JSON value is never callable, the conversion finds no primitive and
  raises.
\<close>

fun ToString :: "jsval \<Rightarrow> error + string"
  and ToString_elements :: "jsval list \<Rightarrow> error + string list" where
  "ToString Undefined = Inr ''undefined''"
| "ToString Null = Inr ''null''"
| "ToString (JBool b) = Inr (if b then ''true'' else ''false'')"
| "ToString (JNum r) = Inr r"
| "ToString (JStr s) = Inr s"
| "ToString (JArr xs) =
     (case ToString_elements xs of
        Inl e \<Rightarrow> Inl e
      | Inr ss \<Rightarrow> Inr (join_strs '','' ss))"
| "ToString (JObj kvs) =
     (if map_of kvs ''toString'' \<noteq> None then Inl TypeError
      else Inr ''[object Object]'')"
| "ToString_elements [] = Inr []"
| "ToString_elements (x # xs) =
     (case (if x = Undefined \<or> x = Null then Inr [] else ToString x) of
        Inl e \<Rightarrow> Inl e
      | Inr s \<Rightarrow>
          (case ToString_elements xs of
             Inl e \<Rightarrow> Inl e
           | Inr ss \<Rightarrow> Inr (s # ss)))"

subsection \<open>Own properties\<close>

text \<open>Decimal digits of a natural number: the name of an array's index property.\<close>

fun show_nat :: "nat \<Rightarrow> string" where
  "show_nat n =
     (if n < 10 then [''0123456789'' ! n]
      else show_nat (n div 10) @ [''0123456789'' ! (n mod 10)])"

declare show_nat.simps [simp del]

definition index_of_key :: "nat \<Rightarrow> string \<Rightarrow> nat option" where
  "index_of_key n k = find (\<lambda>i. show_nat i = k) [0..<n]"

text \<open>
  The own properties of a value: the keys of an object; the indices and
  \<^verbatim>\<open>length\<close> of an array or of a string.
\<close>

fun hasOwn :: "jsval \<Rightarrow> string \<Rightarrow> bool" where
  "hasOwn (JObj kvs) k = (map_of kvs k \<noteq> None)"
| "hasOwn (JArr xs) k = (k = ''length'' \<or> index_of_key (length xs) k \<noteq> None)"
| "hasOwn (JStr s) k = (k = ''length'' \<or> index_of_key (length s) k \<noteq> None)"
| "hasOwn v k = False"

text \<open>\<^verbatim>\<open>value[key]\<close> for an own property \<open>key\<close>; an absent one reads \<^verbatim>\<open>undefined\<close>.\<close>

fun getOwn :: "jsval \<Rightarrow> string \<Rightarrow> jsval" where
  "getOwn (JObj kvs) k = (case map_of kvs k of Some v \<Rightarrow> v | None \<Rightarrow> Undefined)"
| "getOwn (JArr xs) k =
     (if k = ''length'' then JNum (show_nat (length xs))
      else (case index_of_key (length xs) k of
              Some i \<Rightarrow> xs ! i
            | None \<Rightarrow> Undefined))"
| "getOwn (JStr s) k =
     (if k = ''length'' then JNum (show_nat (length s))
      else (case index_of_key (length s) k of
              Some i \<Rightarrow> JStr [s ! i]
            | None \<Rightarrow> Undefined))"
| "getOwn v k = Undefined"

text \<open>
  The method call \<^verbatim>\<open>value.hasOwnProperty(key)\<close>. Reading a property of
  \<^verbatim>\<open>undefined\<close> or \<^verbatim>\<open>null\<close> raises. An object with an own property named
  \<^verbatim>\<open>hasOwnProperty\<close> shadows the inherited method with a value that is not callable,
  and the call raises too.
\<close>

fun call_hasOwnProperty :: "jsval \<Rightarrow> string \<Rightarrow> error + bool" where
  "call_hasOwnProperty Undefined k = Inl TypeError"
| "call_hasOwnProperty Null k = Inl TypeError"
| "call_hasOwnProperty (JObj kvs) k =
     (if hasOwn (JObj kvs) ''hasOwnProperty'' then Inl TypeError
      else Inr (hasOwn (JObj kvs) k))"
| "call_hasOwnProperty v k = Inr (hasOwn v k)"

section \<open>The host's path module\<close>

text \<open>
  \<^verbatim>\<open>import * as path from 'path'\<close> is the host platform's module, not code of the
  package: the entry point takes it as a parameter \<open>h\<close>. \<open>path_resolve\<close> and
  \<open>path_join\<close> take their arguments as a list.
\<close>

record path_module =
  path_resolve :: "string list \<Rightarrow> string"
  path_join :: "string list \<Rightarrow> string"
  path_relative :: "string \<Rightarrow> string \<Rightarrow> string"
  path_isAbsolute :: "string \<Rightarrow> bool"

subsection \<open>The POSIX flavour\<close>

text \<open>
  The POSIX flavour of the module, after its algorithm in Node.js, on path segments.
  \<open>normalizeSegments\<close> drops empty and \<^verbatim>\<open>.\<close> segments and lets \<^verbatim>\<open>..\<close> remove the
  segment before it; above the start of a relative path (\<open>allowAboveRoot\<close>) the
  \<^verbatim>\<open>..\<close> stays. The accumulator holds the segments kept so far, last one first.
\<close>

fun normalizeSegments :: "bool \<Rightarrow> string list \<Rightarrow> string list \<Rightarrow> string list" where
  "normalizeSegments allowAboveRoot acc [] = rev acc"
| "normalizeSegments allowAboveRoot acc (s # ss) =
     (if s = [] \<or> s = ''.'' then normalizeSegments allowAboveRoot acc ss
      else if s = ''..'' then
        (case acc of
           [] \<Rightarrow> normalizeSegments allowAboveRoot (if allowAboveRoot then [''..''] else []) ss
         | t # ts \<Rightarrow>
             if t = ''..''
             then normalizeSegments allowAboveRoot (if allowAboveRoot then ''..'' # acc else acc) ss
             else normalizeSegments allowAboveRoot ts ss)
      else normalizeSegments allowAboveRoot (s # acc) ss)"

definition normalizeString :: "string \<Rightarrow> bool \<Rightarrow> string" where
  "normalizeString p allowAboveRoot =
     join_strs ''/'' (normalizeSegments allowAboveRoot [] (split CHR ''/'' p))"

definition startsWith :: "string \<Rightarrow> char \<Rightarrow> bool" where
  "startsWith s c = (case s of [] \<Rightarrow> False | x # xs \<Rightarrow> x = c)"

text \<open>
  \<^verbatim>\<open>path.resolve\<close> reads its arguments from the right, then the working directory,
  and stops at the first absolute one.
\<close>

fun resolve_loop :: "string list \<Rightarrow> string \<Rightarrow> string \<times> bool" where
  "resolve_loop [] resolvedPath = (resolvedPath, False)"
| "resolve_loop (p # ps) resolvedPath =
     (if p = [] then resolve_loop ps resolvedPath
      else if startsWith p CHR ''/'' then (p @ ''/'' @ resolvedPath, True)
      else resolve_loop ps (p @ ''/'' @ resolvedPath))"

definition posix_resolve :: "string \<Rightarrow> string list \<Rightarrow> string" where
  "posix_resolve cwd args =
     (case resolve_loop (rev args @ [cwd]) [] of
        (resolvedPath, resolvedAbsolute) \<Rightarrow>
          (let n = normalizeString resolvedPath (\<not> resolvedAbsolute)
           in if resolvedAbsolute then ''/'' @ n
              else if n \<noteq> [] then n else ''.''))"

definition posix_normalize :: "string \<Rightarrow> string" where
  "posix_normalize p =
     (if p = [] then ''.''
      else
        (let isAbsolute = startsWith p CHR ''/'';
             trailingSeparator = (last p = CHR ''/'');
             n = normalizeString p (\<not> isAbsolute)
         in if n = [] then (if isAbsolute then ''/'' else if trailingSeparator then ''./'' else ''.'')
            else (if isAbsolute then ''/'' else []) @ n @ (if trailingSeparator then ''/'' else [])))"

definition posix_join :: "string list \<Rightarrow> string" where
  "posix_join args =
     (case filter (\<lambda>a. a \<noteq> []) args of
        [] \<Rightarrow> ''.''
      | a # as \<Rightarrow> posix_normalize (join_strs ''/'' (a # as)))"

definition segments :: "string \<Rightarrow> string list" where
  "segments p = filter (\<lambda>s. s \<noteq> []) (split CHR ''/'' p)"

fun drop_common :: "string list \<Rightarrow> string list \<Rightarrow> string list \<times> string list" where
  "drop_common (x # xs) (y # ys) =
     (if x = y then drop_common xs ys else (x # xs, y # ys))"
| "drop_common xs ys = (xs, ys)"

text \<open>
  \<^verbatim>\<open>path.relative\<close>: both paths resolved (the working directory of a process is
  absolute, so both are absolute and normal), one \<^verbatim>\<open>..\<close> for every segment of
  \<open>from\<close> after the common prefix, then the rest of \<open>to\<close>.
\<close>

definition posix_relative :: "string \<Rightarrow> string \<Rightarrow> string \<Rightarrow> string" where
  "posix_relative cwd from to =
     (if from = to then []
      else
        (let f = posix_resolve cwd [from]; t = posix_resolve cwd [to]
         in if f = t then []
            else (case drop_common (segments f) (segments t) of
                    (fs, ts) \<Rightarrow> join_strs ''/'' (replicate (length fs) ''..'' @ ts))))"

definition posix :: "string \<Rightarrow> path_module" where
  "posix cwd =
     \<lparr> path_resolve = posix_resolve cwd,
       path_join = posix_join,
       path_relative = posix_relative cwd,
       path_isAbsolute = (\<lambda>p. startsWith p CHR ''/'') \<rparr>"

text \<open>
  Every function of the module checks that an argument is a string before it uses it.
  In \<^verbatim>\<open>path.resolve(basePath, x)\<close> the argument \<open>x\<close> is read first.
\<close>

definition resolve_with :: "path_module \<Rightarrow> string \<Rightarrow> jsval \<Rightarrow> error + string" where
  "resolve_with h base v =
     (case v of JStr s \<Rightarrow> Inr (path_resolve h [base, s]) | _ \<Rightarrow> Inl TypeError)"

section \<open>The entry point\<close>

text \<open>
  Modelled from the spec: \<^verbatim>\<open>ensureUnixPath\<close> of \<^verbatim>\<open>src/lib/utils/path.ts\<close>, which is
  not among the source files. The spec says of the module identifier that it is built
  "with all separators normalized to forward slash" and "regardless of host
  path-separator convention": every backslash becomes a forward slash.
\<close>

definition ensureUnixPath :: "string \<Rightarrow> string" where
  "ensureUnixPath s = map (\<lambda>c. if c = CHR 0x5C then CHR ''/'' else c) s"

datatype NgEntryPoint =
  NgEntryPoint
    (packageJson: "(string \<times> jsval) list")
    (ngPackageJson: jsval)
    (basePath: string)
    (parent: "NgEntryPoint option")

record DestinationFiles =
  declarations :: string
  metadata :: string
  fesm2015 :: string
  esm2015 :: string
  umd :: string
  umdMinified :: string

text \<open>
  \<^verbatim>\<open>$get(key)\<close>: the loop over the parts of the key. A value whose \<^verbatim>\<open>typeof\<close> is
  \<^verbatim>\<open>'object'\<close> is asked for the own property; anything else ends the lookup with
  \<^verbatim>\<open>undefined\<close>.
\<close>

fun get_loop :: "jsval \<Rightarrow> string list \<Rightarrow> error + jsval" where
  "get_loop v [] = Inr v"
| "get_loop v (key # parts) =
     (if typeof v = ''object'' then
        (case call_hasOwnProperty v key of
           Inl e \<Rightarrow> Inl e
         | Inr True \<Rightarrow> get_loop (getOwn v key) parts
         | Inr False \<Rightarrow> Inr Undefined)
      else Inr Undefined)"

definition dollar_get :: "NgEntryPoint \<Rightarrow> string \<Rightarrow> error + jsval" where
  "dollar_get ep key = get_loop (ngPackageJson ep) (split CHR ''.'' key)"

definition entryFile :: "NgEntryPoint \<Rightarrow> error + jsval" where
  "entryFile ep = dollar_get ep ''lib.entryFile''"

definition entryFilePath :: "path_module \<Rightarrow> NgEntryPoint \<Rightarrow> error + string" where
  "entryFilePath h ep =
     (case entryFile ep of
        Inl e \<Rightarrow> Inl e
      | Inr v \<Rightarrow> resolve_with h (basePath ep) v)"

definition isSecondaryEntryPoint :: "NgEntryPoint \<Rightarrow> bool" where
  "isSecondaryEntryPoint ep = (parent ep \<noteq> None)"

fun libraryDestinationPath :: "path_module \<Rightarrow> NgEntryPoint \<Rightarrow> error + string" where
  "libraryDestinationPath h (NgEntryPoint pj cfg bp (Some p)) = libraryDestinationPath h p"
| "libraryDestinationPath h (NgEntryPoint pj cfg bp None) =
     (case dollar_get (NgEntryPoint pj cfg bp None) ''dest'' of
        Inl e \<Rightarrow> Inl e
      | Inr v \<Rightarrow> resolve_with h bp v)"

definition sourceRelativePath :: "path_module \<Rightarrow> NgEntryPoint \<Rightarrow> string" where
  "sourceRelativePath h ep =
     (case parent ep of
        Some p \<Rightarrow> path_relative h (basePath p) (basePath ep)
      | None \<Rightarrow> [])"

definition destinationPath :: "path_module \<Rightarrow> NgEntryPoint \<Rightarrow> error + string" where
  "destinationPath h ep =
     (case parent ep of
        Some p \<Rightarrow>
          (case libraryDestinationPath h ep of
             Inl e \<Rightarrow> Inl e
           | Inr d \<Rightarrow> Inr (path_join h [d, sourceRelativePath h ep]))
      | None \<Rightarrow> libraryDestinationPath h ep)"

text \<open>
  \<^verbatim>\<open>moduleId\<close>: the template literal converts the parent's identifier to a string,
  whatever it is (an absent name prints as \<^verbatim>\<open>undefined\<close>).
\<close>

fun moduleId :: "path_module \<Rightarrow> NgEntryPoint \<Rightarrow> error + jsval" where
  "moduleId h (NgEntryPoint pj cfg bp (Some p)) =
     (case moduleId h p of
        Inl e \<Rightarrow> Inl e
      | Inr m \<Rightarrow>
          (case ToString m of
             Inl e \<Rightarrow> Inl e
           | Inr s \<Rightarrow>
               Inr (JStr (ensureUnixPath
                 (s @ ''/'' @ sourceRelativePath h (NgEntryPoint pj cfg bp (Some p)))))))"
| "moduleId h (NgEntryPoint pj cfg bp None) = Inr (getOwn (JObj pj) ''name'')"

text \<open>
  \<^verbatim>\<open>flattenModuleId(separator = '.')\<close>. Only a string has the method
  \<^verbatim>\<open>startsWith\<close>: on any other identifier the call raises.
\<close>

definition flattenModuleId :: "path_module \<Rightarrow> NgEntryPoint \<Rightarrow> string option \<Rightarrow> error + string" where
  "flattenModuleId h ep sep =
     (let separator = (case sep of None \<Rightarrow> ''.'' | Some s \<Rightarrow> s)
      in case moduleId h ep of
           Inl e \<Rightarrow> Inl e
         | Inr (JStr m) \<Rightarrow>
             if startsWith m CHR ''@''
             then Inr (join_strs separator (split CHR ''/'' (drop 1 m)))
             else Inr (join_strs separator (split CHR ''/'' m))
         | Inr _ \<Rightarrow> Inl TypeError)"

text \<open>\<^verbatim>\<open>a || b\<close> with \<open>b\<close> evaluated only when \<open>a\<close> is falsy.\<close>

definition or_else :: "error + jsval \<Rightarrow> error + jsval \<Rightarrow> error + jsval" where
  "or_else a b =
     (case a of
        Inl e \<Rightarrow> Inl e
      | Inr v \<Rightarrow> if ToBoolean v then Inr v else b)"

definition flatModuleFile :: "path_module \<Rightarrow> NgEntryPoint \<Rightarrow> error + jsval" where
  "flatModuleFile h ep =
     or_else (dollar_get ep ''lib.flatModuleFile'')
       (map_sum id JStr (flattenModuleId h ep (Some ''-'')))"

definition umdId :: "path_module \<Rightarrow> NgEntryPoint \<Rightarrow> error + jsval" where
  "umdId h ep =
     or_else (dollar_get ep ''lib.umdId'')
       (map_sum id JStr (flattenModuleId h ep None))"

definition amdId :: "path_module \<Rightarrow> NgEntryPoint \<Rightarrow> error + jsval" where
  "amdId h ep = or_else (dollar_get ep ''lib.amdId'') (moduleId h ep)"

definition cssUrl :: "NgEntryPoint \<Rightarrow> error + jsval" where
  "cssUrl ep = dollar_get ep ''lib.cssUrl''"

definition umdModuleIds :: "NgEntryPoint \<Rightarrow> error + jsval" where
  "umdModuleIds ep = dollar_get ep ''lib.umdModuleIds''"

text \<open>
  \<^verbatim>\<open>styleIncludePaths\<close>: only an array has the method \<^verbatim>\<open>map\<close>, and
  \<^verbatim>\<open>path.isAbsolute\<close> accepts only a string.
\<close>

fun includePaths_map :: "path_module \<Rightarrow> string \<Rightarrow> jsval list \<Rightarrow> error + string list" where
  "includePaths_map h bp [] = Inr []"
| "includePaths_map h bp (JStr includePath # rest) =
     (case includePaths_map h bp rest of
        Inl e \<Rightarrow> Inl e
      | Inr ps \<Rightarrow>
          Inr ((if path_isAbsolute h includePath then includePath
                else path_resolve h [bp, includePath]) # ps))"
| "includePaths_map h bp (v # rest) = Inl TypeError"

definition styleIncludePaths :: "path_module \<Rightarrow> NgEntryPoint \<Rightarrow> error + string list" where
  "styleIncludePaths h ep =
     (case or_else (dollar_get ep ''lib.styleIncludePaths'') (Inr (JArr [])) of
        Inl e \<Rightarrow> Inl e
      | Inr (JArr xs) \<Rightarrow> includePaths_map h (basePath ep) xs
      | Inr _ \<Rightarrow> Inl TypeError)"

definition destinationFiles :: "path_module \<Rightarrow> NgEntryPoint \<Rightarrow> error + DestinationFiles" where
  "destinationFiles h ep =
     (case libraryDestinationPath h ep of
        Inl e \<Rightarrow> Inl e
      | Inr libDest \<Rightarrow>
     (case destinationPath h ep of
        Inl e \<Rightarrow> Inl e
      | Inr entryPointDest \<Rightarrow>
     (case flatModuleFile h ep of
        Inl e \<Rightarrow> Inl e
      | Inr v \<Rightarrow>
     (case ToString v of
        Inl e \<Rightarrow> Inl e
      | Inr moduleFileName \<Rightarrow>
          Inr \<lparr> declarations = path_join h [entryPointDest, moduleFileName @ ''.d.ts''],
                metadata = path_join h [entryPointDest, moduleFileName @ ''.metadata.json''],
                fesm2015 = path_join h [libDest, ''fesm2015'', moduleFileName @ ''.js''],
                esm2015 =
                  path_join h [libDest, ''esm2015'', sourceRelativePath h ep,
                               moduleFileName @ ''.js''],
                umd = path_join h [libDest, ''bundles'', moduleFileName @ ''.umd.js''],
                umdMinified =
                  path_join h [libDest, ''bundles'', moduleFileName @ ''.umd.min.js''] \<rparr>))))"

definition sideEffects :: "NgEntryPoint \<Rightarrow> jsval" where
  "sideEffects ep =
     (let v = getOwn (JObj (packageJson ep)) ''sideEffects''
      in if ToBoolean v then v else JBool False)"

section \<open>Notions the properties are stated with\<close>

text \<open>The parentless ancestor of an entry point: the primary entry point of its tree.\<close>

fun root :: "NgEntryPoint \<Rightarrow> NgEntryPoint" where
  "root (NgEntryPoint pj cfg bp (Some p)) = root p"
| "root (NgEntryPoint pj cfg bp None) = NgEntryPoint pj cfg bp None"

text \<open>
  The two entry points of the scenarios: the primary one in \<^verbatim>\<open>/lib\<close> and a secondary
  one in \<^verbatim>\<open>/lib/testing\<close>.
\<close>

definition acme_primary :: NgEntryPoint where
  "acme_primary =
     NgEntryPoint [(''name'', JStr ''@acme/widgets'')]
       (JObj [(''dest'', JStr ''dist''), (''lib'', JObj [(''entryFile'', JStr ''index.ts'')])])
       ''/lib'' None"

definition acme_secondary :: NgEntryPoint where
  "acme_secondary =
     NgEntryPoint []
       (JObj [(''lib'', JObj [(''entryFile'', JStr ''index.ts'')])])
       ''/lib/testing'' (Some acme_primary)"

text \<open>
  Two parentless entry points for the identifiers: one with all three overrides set
  and no package name, one with all three overrides set to the empty string.
\<close>

definition overridden :: NgEntryPoint where
  "overridden =
     NgEntryPoint []
       (JObj [(''lib'', JObj [(''flatModuleFile'', JStr ''widgets-bundle''),
                             (''umdId'', JStr ''acmeWidgets''),
                             (''amdId'', JStr ''acme/widgets'')])])
       ''/lib'' None"

definition empty_overrides :: NgEntryPoint where
  "empty_overrides =
     NgEntryPoint [(''name'', JStr ''@acme/widgets'')]
       (JObj [(''lib'', JObj [(''flatModuleFile'', JStr ''''),
                             (''umdId'', JStr ''''),
                             (''amdId'', JStr '''')])])
       ''/lib'' None"

text \<open>
  A configuration on which no lookup can raise: no \<^verbatim>\<open>null\<close> anywhere in it, and no
  object with an own property named \<^verbatim>\<open>hasOwnProperty\<close>.
\<close>

fun lookup_safe :: "jsval \<Rightarrow> bool"
  and lookup_safe_list :: "jsval list \<Rightarrow> bool"
  and lookup_safe_props :: "(string \<times> jsval) list \<Rightarrow> bool" where
  "lookup_safe Undefined = True"
| "lookup_safe Null = False"
| "lookup_safe (JBool b) = True"
| "lookup_safe (JNum r) = True"
| "lookup_safe (JStr s) = True"
| "lookup_safe (JArr xs) = lookup_safe_list xs"
| "lookup_safe (JObj kvs) = lookup_safe_props kvs"
| "lookup_safe_list [] = True"
| "lookup_safe_list (x # xs) = (lookup_safe x \<and> lookup_safe_list xs)"
| "lookup_safe_props [] = True"
| "lookup_safe_props ((k, v) # kvs) =
     (k \<noteq> ''hasOwnProperty'' \<and> lookup_safe v \<and> lookup_safe_props kvs)"

text \<open>
  Two more parentless entry points: one with an empty manifest and an empty
  configuration, one whose configuration has \<^verbatim>\<open>null\<close> for \<^verbatim>\<open>lib\<close>.
\<close>

definition unconfigured :: NgEntryPoint where
  "unconfigured = NgEntryPoint [] (JObj []) ''/lib'' None"

definition null_lib :: NgEntryPoint where
  "null_lib = NgEntryPoint [] (JObj [(''lib'', Null)]) ''/lib'' None"

section \<open>Strings\<close>

lemma split_not_Nil: "split c s \<noteq> []"
  by (induction s) (auto split: list.splits)

lemma join_strs_Cons_Cons: "join_strs sep ((x # p) # ps) = x # join_strs sep (p # ps)"
  by (cases ps) simp_all

lemma join_strs_Nil_Cons: "ps \<noteq> [] \<Longrightarrow> join_strs sep ([] # ps) = sep @ join_strs sep ps"
  by (cases ps) simp_all

text \<open>Splitting at a character and joining with \<open>sep\<close> replaces the character by \<open>sep\<close>.\<close>

lemma join_split_replace:
  "join_strs sep (split c s) = concat (map (\<lambda>x. if x = c then sep else [x]) s)"
proof (induction s)
  case Nil
  show ?case by simp
next
  case (Cons x xs)
  obtain p ps where sp: "split c xs = p # ps"
    using split_not_Nil [of c xs] by (cases "split c xs") auto
  show ?case
  proof (cases "x = c")
    case True
    then show ?thesis using Cons sp by (simp add: join_strs_Nil_Cons split_not_Nil)
  next
    case False
    then show ?thesis using Cons sp by (simp add: join_strs_Cons_Cons)
  qed
qed

lemma ensureUnixPath_no_backslash: "CHR 0x5C \<notin> set (ensureUnixPath s)"
  by (auto simp: ensureUnixPath_def)

lemma ensureUnixPath_id: "CHR 0x5C \<notin> set s \<Longrightarrow> ensureUnixPath s = s"
  by (induction s) (auto simp: ensureUnixPath_def)

section \<open>The accessors, case by case\<close>

lemma moduleId_secondary:
  "parent ep = Some p \<Longrightarrow>
   moduleId h ep =
     (case moduleId h p of
        Inl e \<Rightarrow> Inl e
      | Inr m \<Rightarrow>
          (case ToString m of
             Inl e \<Rightarrow> Inl e
           | Inr s \<Rightarrow> Inr (JStr (ensureUnixPath (s @ ''/'' @ sourceRelativePath h ep)))))"
  by (cases ep) (auto split: sum.splits)

lemma moduleId_primary:
  "parent ep = None \<Longrightarrow> moduleId h ep = Inr (getOwn (JObj (packageJson ep)) ''name'')"
  by (cases ep) simp

lemma libraryDestinationPath_secondary:
  "parent ep = Some p \<Longrightarrow> libraryDestinationPath h ep = libraryDestinationPath h p"
  by (cases ep) simp

lemma libraryDestinationPath_primary:
  "parent ep = None \<Longrightarrow>
   libraryDestinationPath h ep =
     (case dollar_get ep ''dest'' of Inl e \<Rightarrow> Inl e | Inr v \<Rightarrow> resolve_with h (basePath ep) v)"
  by (cases ep) (auto split: sum.splits)

lemma parent_root: "parent (root ep) = None"
  by (induction ep rule: root.induct) simp_all

lemma root_secondary: "parent ep = Some p \<Longrightarrow> root ep = root p"
  by (cases ep) simp

lemma root_primary: "parent ep = None \<Longrightarrow> root ep = ep"
  by (cases ep) simp

lemma libraryDestinationPath_of_root:
  "libraryDestinationPath h ep = libraryDestinationPath h (root ep)"
  by (induction ep rule: root.induct) simp_all

section \<open>The primary scenario\<close>

text \<open>
  Claim C4. The primary entry point with base path \<^verbatim>\<open>/lib\<close>, \<^verbatim>\<open>dest\<close> set to
  \<^verbatim>\<open>dist\<close>, \<^verbatim>\<open>lib.entryFile\<close> set to \<^verbatim>\<open>index.ts\<close> and the manifest name
  \<^verbatim>\<open>@acme/widgets\<close>, on a POSIX host with any working directory: its entry file is
  \<^verbatim>\<open>/lib/index.ts\<close>, its library destination \<^verbatim>\<open>/lib/dist\<close>, its module identifier
  \<^verbatim>\<open>@acme/widgets\<close>, its flat module file \<^verbatim>\<open>acme-widgets\<close> and its UMD identifier
  \<^verbatim>\<open>acme.widgets\<close>.
\<close>

theorem acme_primary_scenario:
  "entryFilePath (posix cwd) acme_primary = Inr ''/lib/index.ts'' \<and>
   libraryDestinationPath (posix cwd) acme_primary = Inr ''/lib/dist'' \<and>
   moduleId (posix cwd) acme_primary = Inr (JStr ''@acme/widgets'') \<and>
   flatModuleFile (posix cwd) acme_primary = Inr (JStr ''acme-widgets'') \<and>
   umdId (posix cwd) acme_primary = Inr (JStr ''acme.widgets'')"
proof -
  have "entryFilePath (posix cwd) acme_primary = Inr ''/lib/index.ts''"
    by (simp add: entryFilePath_def entryFile_def dollar_get_def acme_primary_def
        resolve_with_def posix_def posix_resolve_def startsWith_def normalizeString_def)
  moreover have "libraryDestinationPath (posix cwd) acme_primary = Inr ''/lib/dist''"
    by (simp add: dollar_get_def acme_primary_def resolve_with_def posix_def
        posix_resolve_def startsWith_def normalizeString_def)
  moreover have "moduleId (posix cwd) acme_primary = Inr (JStr ''@acme/widgets'')"
    by (simp add: acme_primary_def)
  moreover have "flatModuleFile (posix cwd) acme_primary = Inr (JStr ''acme-widgets'')"
    by (simp add: flatModuleFile_def or_else_def flattenModuleId_def dollar_get_def
        acme_primary_def startsWith_def)
  moreover have "umdId (posix cwd) acme_primary = Inr (JStr ''acme.widgets'')"
    by (simp add: umdId_def or_else_def flattenModuleId_def dollar_get_def
        acme_primary_def startsWith_def)
  ultimately show ?thesis by simp
qed

section \<open>Flattening the module identifier\<close>

text \<open>
  Claim C7. When the module identifier is the string \<open>m\<close>, \<open>flattenModuleId\<close> drops one
  leading \<^verbatim>\<open>@\<close> if there is one, splits the rest at every \<^verbatim>\<open>/\<close> and joins the
  pieces with the separator, which is \<^verbatim>\<open>.\<close> when none is given; the result is the
  rest with every \<^verbatim>\<open>/\<close> replaced by the separator. With the separator \<^verbatim>\<open>-\<close>,
  \<^verbatim>\<open>@scope/pkg/sub\<close> gives \<^verbatim>\<open>scope-pkg-sub\<close> and \<^verbatim>\<open>pkg/sub\<close> gives \<^verbatim>\<open>pkg-sub\<close>.
\<close>

theorem flattenModuleId_joins_segments:
  "moduleId h ep = Inr (JStr m) \<longrightarrow>
     flattenModuleId h ep None = flattenModuleId h ep (Some ''.'') \<and>
     flattenModuleId h ep (Some sep) =
       Inr (join_strs sep (split CHR ''/'' (if startsWith m CHR ''@'' then drop 1 m else m))) \<and>
     flattenModuleId h ep (Some sep) =
       Inr (concat (map (\<lambda>c. if c = CHR ''/'' then sep else [c])
              (if startsWith m CHR ''@'' then drop 1 m else m))) \<and>
     (m = ''@scope/pkg/sub'' \<longrightarrow> flattenModuleId h ep (Some ''-'') = Inr ''scope-pkg-sub'') \<and>
     (m = ''pkg/sub'' \<longrightarrow> flattenModuleId h ep (Some ''-'') = Inr ''pkg-sub'')"
  by (simp add: flattenModuleId_def join_split_replace startsWith_def)

theorem flattenModuleId_joins_segments_witness:
  "flattenModuleId (posix ''/'')
     (NgEntryPoint [(''name'', JStr ''@scope/pkg/sub'')] (JObj []) ''/lib'' None)
     (Some ''-'') = Inr ''scope-pkg-sub'' \<and>
   flattenModuleId (posix ''/'')
     (NgEntryPoint [(''name'', JStr ''pkg/sub'')] (JObj []) ''/lib'' None)
     (Some ''-'') = Inr ''pkg-sub''"
proof -
  let ?h = "posix ''/''"
  let ?a = "NgEntryPoint [(''name'', JStr ''@scope/pkg/sub'')] (JObj []) ''/lib'' None"
  let ?b = "NgEntryPoint [(''name'', JStr ''pkg/sub'')] (JObj []) ''/lib'' None"
  have a: "moduleId ?h ?a = Inr (JStr ''@scope/pkg/sub'')" by simp
  have b: "moduleId ?h ?b = Inr (JStr ''pkg/sub'')" by simp
  from a flattenModuleId_joins_segments [of ?h ?a "''@scope/pkg/sub''" "''-''"]
  have "flattenModuleId ?h ?a (Some ''-'') = Inr ''scope-pkg-sub''" by blast
  moreover from b flattenModuleId_joins_segments [of ?h ?b "''pkg/sub''" "''-''"]
  have "flattenModuleId ?h ?b (Some ''-'') = Inr ''pkg-sub''" by blast
  ultimately show ?thesis by simp
qed

section \<open>The module identifier\<close>

lemma moduleId_secondary_string:
  assumes "parent ep = Some p" and "moduleId h ep = Inr m"
  shows "\<exists>s. m = JStr s \<and> CHR 0x5C \<notin> set s"
  using assms by (auto simp: moduleId_secondary ensureUnixPath_no_backslash split: sum.splits)

lemma acme_secondary_parent: "parent acme_secondary = Some acme_primary"
  by (simp add: acme_secondary_def)

lemma acme_primary_moduleId: "moduleId h acme_primary = Inr (JStr ''@acme/widgets'')"
  by (simp add: acme_primary_def)

lemma acme_secondary_relative: "sourceRelativePath (posix cwd) acme_secondary = ''testing''"
  by (simp add: sourceRelativePath_def acme_secondary_def acme_primary_def posix_def
      posix_relative_def posix_resolve_def startsWith_def normalizeString_def segments_def)

text \<open>
  Claim C3. An entry point with a parent has the module identifier made of the parent's
  identifier (as the template literal prints it), a \<^verbatim>\<open>/\<close> and the path from the
  parent's base path to its own, as the host's \<^verbatim>\<open>path.relative\<close> gives it, passed
  through \<open>ensureUnixPath\<close>. Whatever the host's path module returns, the identifier
  is a string without a backslash; where the parent's identifier and the relative path
  have none, it is the plain concatenation. A parentless entry point has the \<^verbatim>\<open>name\<close>
  of its package manifest as identifier (\<^verbatim>\<open>undefined\<close> when the manifest has none).
\<close>

theorem moduleId_composition:
  "(parent ep = Some p \<longrightarrow>
      sourceRelativePath h ep = path_relative h (basePath p) (basePath ep) \<and>
      moduleId h ep =
        (case moduleId h p of
           Inl e \<Rightarrow> Inl e
         | Inr pm \<Rightarrow>
             (case ToString pm of
                Inl e \<Rightarrow> Inl e
              | Inr s \<Rightarrow> Inr (JStr (ensureUnixPath (s @ ''/'' @ sourceRelativePath h ep))))) \<and>
      (\<forall>s. moduleId h p = Inr (JStr s) \<longrightarrow>
         moduleId h ep = Inr (JStr (ensureUnixPath (s @ ''/'' @ sourceRelativePath h ep))) \<and>
         (CHR 0x5C \<notin> set s \<and> CHR 0x5C \<notin> set (sourceRelativePath h ep) \<longrightarrow>
            moduleId h ep = Inr (JStr (s @ ''/'' @ sourceRelativePath h ep)))) \<and>
      (\<forall>m. moduleId h ep = Inr m \<longrightarrow> (\<exists>s. m = JStr s \<and> CHR 0x5C \<notin> set s))) \<and>
   (parent ep = None \<longrightarrow>
      moduleId h ep =
        Inr (case map_of (packageJson ep) ''name'' of Some v \<Rightarrow> v | None \<Rightarrow> Undefined))"
proof (intro conjI impI allI)
  assume "parent ep = Some p"
  then show "sourceRelativePath h ep = path_relative h (basePath p) (basePath ep)"
    by (simp add: sourceRelativePath_def)
next
  assume "parent ep = Some p"
  then show "moduleId h ep =
        (case moduleId h p of
           Inl e \<Rightarrow> Inl e
         | Inr pm \<Rightarrow>
             (case ToString pm of
                Inl e \<Rightarrow> Inl e
              | Inr s \<Rightarrow> Inr (JStr (ensureUnixPath (s @ ''/'' @ sourceRelativePath h ep)))))"
    by (rule moduleId_secondary)
next
  fix s
  assume "parent ep = Some p" and "moduleId h p = Inr (JStr s)"
  then show "moduleId h ep = Inr (JStr (ensureUnixPath (s @ ''/'' @ sourceRelativePath h ep)))"
    by (simp add: moduleId_secondary)
next
  fix s
  assume "parent ep = Some p" and "moduleId h p = Inr (JStr s)"
    and "CHR 0x5C \<notin> set s \<and> CHR 0x5C \<notin> set (sourceRelativePath h ep)"
  then show "moduleId h ep = Inr (JStr (s @ ''/'' @ sourceRelativePath h ep))"
    by (simp add: moduleId_secondary ensureUnixPath_id)
next
  fix m
  assume "parent ep = Some p" and "moduleId h ep = Inr m"
  then show "\<exists>s. m = JStr s \<and> CHR 0x5C \<notin> set s"
    by (rule moduleId_secondary_string)
next
  assume "parent ep = None"
  then show "moduleId h ep =
        Inr (case map_of (packageJson ep) ''name'' of Some v \<Rightarrow> v | None \<Rightarrow> Undefined)"
    by (simp add: moduleId_primary)
qed

theorem moduleId_composition_witness:
  "parent acme_secondary = Some acme_primary \<and>
   moduleId (posix ''/'') acme_primary = Inr (JStr ''@acme/widgets'') \<and>
   sourceRelativePath (posix ''/'') acme_secondary = ''testing'' \<and>
   moduleId (posix ''/'') acme_secondary = Inr (JStr ''@acme/widgets/testing'') \<and>
   parent acme_primary = None \<and>
   map_of (packageJson acme_primary) ''name'' = Some (JStr ''@acme/widgets'')"
proof -
  let ?h = "posix ''/''"
  note inst = moduleId_composition [of acme_secondary acme_primary ?h]
  have nb: "CHR 0x5C \<notin> set ''@acme/widgets'' \<and>
      CHR 0x5C \<notin> set (sourceRelativePath ?h acme_secondary)"
    by (simp add: acme_secondary_relative)
  from inst acme_secondary_parent acme_primary_moduleId [of ?h] nb
  have "moduleId ?h acme_secondary =
      Inr (JStr (''@acme/widgets'' @ ''/'' @ sourceRelativePath ?h acme_secondary))"
    by blast
  then have "moduleId ?h acme_secondary = Inr (JStr ''@acme/widgets/testing'')"
    by (simp add: acme_secondary_relative)
  moreover have "parent acme_primary = None"
    and "map_of (packageJson acme_primary) ''name'' = Some (JStr ''@acme/widgets'')"
    by (simp_all add: acme_primary_def)
  ultimately show ?thesis
    using acme_secondary_parent acme_primary_moduleId [of ?h] acme_secondary_relative [of "''/''"]
    by simp
qed

section \<open>Destination directories\<close>

lemma libraryDestinationPath_same_root:
  "root ep' = root ep \<Longrightarrow> libraryDestinationPath h ep' = libraryDestinationPath h ep"
  using libraryDestinationPath_of_root [of h ep'] libraryDestinationPath_of_root [of h ep]
  by simp

lemma libraryDestinationPath_root_dest:
  "libraryDestinationPath h ep =
     (case dollar_get (root ep) ''dest'' of
        Inl e \<Rightarrow> Inl e
      | Inr v \<Rightarrow> resolve_with h (basePath (root ep)) v)"
  using libraryDestinationPath_of_root [of h ep]
    libraryDestinationPath_primary [OF parent_root, of h ep]
  by simp

lemma acme_secondary_root: "root acme_secondary = acme_primary"
  by (simp add: acme_secondary_def acme_primary_def)

lemma acme_primary_dest: "dollar_get acme_primary ''dest'' = Inr (JStr ''dist'')"
  by (simp add: dollar_get_def acme_primary_def)

lemma posix_resolve_lib_dist: "path_resolve (posix cwd) [''/lib'', ''dist''] = ''/lib/dist''"
  by (simp add: posix_def posix_resolve_def startsWith_def normalizeString_def)

lemma posix_join_lib_dist_testing: "path_join (posix cwd) [''/lib/dist'', ''testing''] = ''/lib/dist/testing''"
  by (simp add: posix_def posix_join_def posix_normalize_def startsWith_def normalizeString_def)

text \<open>
  Claim C6. The library destination of an entry point is that of \<open>root ep\<close>, the
  parentless entry point reached by walking up the parents: the \<^verbatim>\<open>dest\<close> option of
  the root's configuration, resolved against the root's base path. Entry points with
  the same root have the same library destination, and replacing the configuration of
  an entry point that has a parent (so also giving it a \<^verbatim>\<open>dest\<close> of its own) does not
  change it. A parentless entry point has the library destination as destination path;
  an entry point with a parent has the library destination joined with its source
  relative path.
\<close>

theorem libraryDestinationPath_shared_root:
  "parent (root ep) = None \<and>
   (parent ep = None \<longrightarrow> root ep = ep) \<and>
   (\<forall>p. parent ep = Some p \<longrightarrow> root ep = root p) \<and>
   libraryDestinationPath h ep =
     (case dollar_get (root ep) ''dest'' of
        Inl e \<Rightarrow> Inl e
      | Inr v \<Rightarrow> resolve_with h (basePath (root ep)) v) \<and>
   (\<forall>d. dollar_get (root ep) ''dest'' = Inr (JStr d) \<longrightarrow>
      libraryDestinationPath h ep = Inr (path_resolve h [basePath (root ep), d])) \<and>
   (\<forall>ep'. root ep' = root ep \<longrightarrow>
      libraryDestinationPath h ep' = libraryDestinationPath h ep) \<and>
   (\<forall>p cfg'. parent ep = Some p \<longrightarrow>
      libraryDestinationPath h (NgEntryPoint (packageJson ep) cfg' (basePath ep) (Some p)) =
        libraryDestinationPath h ep) \<and>
   (parent ep = None \<longrightarrow> destinationPath h ep = libraryDestinationPath h ep) \<and>
   (\<forall>p. parent ep = Some p \<longrightarrow>
      destinationPath h ep =
        (case libraryDestinationPath h ep of
           Inl e \<Rightarrow> Inl e
         | Inr d \<Rightarrow> Inr (path_join h [d, sourceRelativePath h ep])))"
proof (intro conjI impI allI)
  show "parent (root ep) = None" by (rule parent_root)
next
  assume "parent ep = None"
  then show "root ep = ep" by (rule root_primary)
next
  fix p assume "parent ep = Some p"
  then show "root ep = root p" by (rule root_secondary)
next
  show "libraryDestinationPath h ep =
     (case dollar_get (root ep) ''dest'' of
        Inl e \<Rightarrow> Inl e
      | Inr v \<Rightarrow> resolve_with h (basePath (root ep)) v)"
    by (rule libraryDestinationPath_root_dest)
next
  fix d assume "dollar_get (root ep) ''dest'' = Inr (JStr d)"
  then show "libraryDestinationPath h ep = Inr (path_resolve h [basePath (root ep), d])"
    by (simp add: libraryDestinationPath_root_dest resolve_with_def)
next
  fix ep' assume "root ep' = root ep"
  then show "libraryDestinationPath h ep' = libraryDestinationPath h ep"
    by (rule libraryDestinationPath_same_root)
next
  fix p cfg' assume "parent ep = Some p"
  then show "libraryDestinationPath h (NgEntryPoint (packageJson ep) cfg' (basePath ep) (Some p)) =
        libraryDestinationPath h ep"
    by (simp add: libraryDestinationPath_secondary)
next
  assume "parent ep = None"
  then show "destinationPath h ep = libraryDestinationPath h ep"
    by (simp add: destinationPath_def)
next
  fix p assume "parent ep = Some p"
  then show "destinationPath h ep =
        (case libraryDestinationPath h ep of
           Inl e \<Rightarrow> Inl e
         | Inr d \<Rightarrow> Inr (path_join h [d, sourceRelativePath h ep]))"
    by (simp add: destinationPath_def)
qed

theorem libraryDestinationPath_shared_root_witness:
  "root acme_secondary = acme_primary \<and>
   parent acme_secondary = Some acme_primary \<and>
   dollar_get acme_primary ''dest'' = Inr (JStr ''dist'') \<and>
   libraryDestinationPath (posix ''/'') acme_secondary = Inr ''/lib/dist'' \<and>
   libraryDestinationPath (posix ''/'')
     (NgEntryPoint (packageJson acme_secondary) (JObj [(''dest'', JStr ''elsewhere'')])
        (basePath acme_secondary) (Some acme_primary)) = Inr ''/lib/dist'' \<and>
   destinationPath (posix ''/'') acme_secondary = Inr ''/lib/dist/testing''"
proof -
  let ?h = "posix ''/''"
  note inst = libraryDestinationPath_shared_root [of acme_secondary ?h]
  have d: "dollar_get (root acme_secondary) ''dest'' = Inr (JStr ''dist'')"
    by (simp add: acme_secondary_root acme_primary_dest)
  from inst d have "libraryDestinationPath ?h acme_secondary =
      Inr (path_resolve ?h [basePath (root acme_secondary), ''dist''])"
    by blast
  then have lib: "libraryDestinationPath ?h acme_secondary = Inr ''/lib/dist''"
    by (simp add: acme_secondary_root acme_primary_def posix_resolve_lib_dist)
  from inst acme_secondary_parent
  have "libraryDestinationPath ?h
      (NgEntryPoint (packageJson acme_secondary) (JObj [(''dest'', JStr ''elsewhere'')])
         (basePath acme_secondary) (Some acme_primary)) = libraryDestinationPath ?h acme_secondary"
    by blast
  moreover from inst acme_secondary_parent
  have "destinationPath ?h acme_secondary =
      (case libraryDestinationPath ?h acme_secondary of
         Inl e \<Rightarrow> Inl e
       | Inr d \<Rightarrow> Inr (path_join ?h [d, sourceRelativePath ?h acme_secondary]))"
    by blast
  ultimately show ?thesis
    using lib acme_secondary_root acme_secondary_parent acme_primary_dest
    by (simp add: acme_secondary_relative posix_join_lib_dist_testing)
qed

section \<open>Destination files\<close>

lemma destinationFiles_returns:
  assumes "libraryDestinationPath h ep = Inr libDest"
    and "destinationPath h ep = Inr entryPointDest"
    and "flatModuleFile h ep = Inr v"
    and "ToString v = Inr moduleFileName"
  shows "destinationFiles h ep =
     Inr \<lparr> declarations = path_join h [entryPointDest, moduleFileName @ ''.d.ts''],
           metadata = path_join h [entryPointDest, moduleFileName @ ''.metadata.json''],
           fesm2015 = path_join h [libDest, ''fesm2015'', moduleFileName @ ''.js''],
           esm2015 =
             path_join h [libDest, ''esm2015'', sourceRelativePath h ep, moduleFileName @ ''.js''],
           umd = path_join h [libDest, ''bundles'', moduleFileName @ ''.umd.js''],
           umdMinified = path_join h [libDest, ''bundles'', moduleFileName @ ''.umd.min.js''] \<rparr>"
  using assms by (simp add: destinationFiles_def)

lemma destinationFiles_Inr_D:
  assumes "destinationFiles h ep = Inr df"
  shows "\<exists>libDest entryPointDest v moduleFileName.
      libraryDestinationPath h ep = Inr libDest \<and>
      destinationPath h ep = Inr entryPointDest \<and>
      flatModuleFile h ep = Inr v \<and>
      ToString v = Inr moduleFileName"
  using assms by (auto simp: destinationFiles_def split: sum.splits)

lemma acme_secondary_libDest: "libraryDestinationPath (posix cwd) acme_secondary = Inr ''/lib/dist''"
  by (simp add: acme_secondary_def acme_primary_def dollar_get_def resolve_with_def
      posix_resolve_lib_dist)

lemma acme_secondary_dest: "destinationPath (posix cwd) acme_secondary = Inr ''/lib/dist/testing''"
  by (simp add: destinationPath_def acme_secondary_parent acme_secondary_libDest
      acme_secondary_relative posix_join_lib_dist_testing)

lemma acme_secondary_moduleId:
  "moduleId (posix cwd) acme_secondary = Inr (JStr ''@acme/widgets/testing'')"
  by (simp add: moduleId_secondary [OF acme_secondary_parent] acme_primary_moduleId
      acme_secondary_relative ensureUnixPath_def)

lemma acme_secondary_flatModuleFile:
  "flatModuleFile (posix cwd) acme_secondary = Inr (JStr ''acme-widgets-testing'')"
  by (simp add: flatModuleFile_def or_else_def flattenModuleId_def acme_secondary_moduleId
      startsWith_def)
    (simp add: dollar_get_def acme_secondary_def)

lemma posix_join_fesm2015:
  "path_join (posix cwd) [''/lib/dist'', ''fesm2015'', ''acme-widgets-testing.js''] =
     ''/lib/dist/fesm2015/acme-widgets-testing.js''"
  by (simp add: posix_def posix_join_def posix_normalize_def startsWith_def normalizeString_def)


lemma posix_join_esm2015:
  "path_join (posix cwd) [''/lib/dist'', ''esm2015'', ''testing'', ''acme-widgets-testing.js''] =
     ''/lib/dist/esm2015/testing/acme-widgets-testing.js''"
  by (simp add: posix_def posix_join_def posix_normalize_def startsWith_def normalizeString_def)

lemma acme_secondary_destinationFiles:
  "destinationFiles (posix cwd) acme_secondary =
     Inr \<lparr> declarations = ''/lib/dist/testing/acme-widgets-testing.d.ts'',
           metadata = ''/lib/dist/testing/acme-widgets-testing.metadata.json'',
           fesm2015 = ''/lib/dist/fesm2015/acme-widgets-testing.js'',
           esm2015 = ''/lib/dist/esm2015/testing/acme-widgets-testing.js'',
           umd = ''/lib/dist/bundles/acme-widgets-testing.umd.js'',
           umdMinified = ''/lib/dist/bundles/acme-widgets-testing.umd.min.js'' \<rparr>"
  by (simp add: destinationFiles_returns [OF acme_secondary_libDest acme_secondary_dest
        acme_secondary_flatModuleFile] acme_secondary_relative)
    (simp add: posix_def posix_join_def posix_normalize_def startsWith_def normalizeString_def)

text \<open>
  Claim C5. Once the library destination \<open>libDest\<close>, the destination path
  \<open>entryPointDest\<close> and the flat module file (printed as \<open>stem\<close>) are there,
  \<open>destinationFiles\<close> returns: the metadata and the declarations in \<open>entryPointDest\<close>,
  named after the stem; the ESM2015 module in \<open>libDest\<close>, \<^verbatim>\<open>esm2015\<close> and the source
  relative path; the FESM2015 module and the two UMD bundles in \<open>libDest\<close> and
  \<^verbatim>\<open>fesm2015\<close> or \<^verbatim>\<open>bundles\<close>, named after the stem alone. It returns in no other
  case. Two entry points with the same library destination and the same flat module
  file have the same FESM2015 and UMD paths, wherever their sources are. For the
  secondary entry point \<^verbatim>\<open>/lib/testing\<close> of the scenario, on a POSIX host, the ESM2015
  module is \<^verbatim>\<open>/lib/dist/esm2015/testing/acme-widgets-testing.js\<close>.
\<close>

theorem destinationFiles_layout:
  "(\<forall>libDest entryPointDest v stem.
      libraryDestinationPath h ep = Inr libDest \<and>
      destinationPath h ep = Inr entryPointDest \<and>
      flatModuleFile h ep = Inr v \<and>
      ToString v = Inr stem \<longrightarrow>
      destinationFiles h ep =
        Inr \<lparr> declarations = path_join h [entryPointDest, stem @ ''.d.ts''],
              metadata = path_join h [entryPointDest, stem @ ''.metadata.json''],
              fesm2015 = path_join h [libDest, ''fesm2015'', stem @ ''.js''],
              esm2015 = path_join h [libDest, ''esm2015'', sourceRelativePath h ep, stem @ ''.js''],
              umd = path_join h [libDest, ''bundles'', stem @ ''.umd.js''],
              umdMinified = path_join h [libDest, ''bundles'', stem @ ''.umd.min.js''] \<rparr>) \<and>
   (\<forall>df. destinationFiles h ep = Inr df \<longrightarrow>
      (\<exists>libDest entryPointDest v stem.
         libraryDestinationPath h ep = Inr libDest \<and>
         destinationPath h ep = Inr entryPointDest \<and>
         flatModuleFile h ep = Inr v \<and>
         ToString v = Inr stem)) \<and>
   (\<forall>ep' df df'.
      destinationFiles h ep = Inr df \<and> destinationFiles h ep' = Inr df' \<and>
      libraryDestinationPath h ep' = libraryDestinationPath h ep \<and>
      flatModuleFile h ep' = flatModuleFile h ep \<longrightarrow>
      fesm2015 df' = fesm2015 df \<and> umd df' = umd df \<and> umdMinified df' = umdMinified df) \<and>
   destinationFiles (posix cwd) acme_secondary =
     Inr \<lparr> declarations = ''/lib/dist/testing/acme-widgets-testing.d.ts'',
           metadata = ''/lib/dist/testing/acme-widgets-testing.metadata.json'',
           fesm2015 = ''/lib/dist/fesm2015/acme-widgets-testing.js'',
           esm2015 = ''/lib/dist/esm2015/testing/acme-widgets-testing.js'',
           umd = ''/lib/dist/bundles/acme-widgets-testing.umd.js'',
           umdMinified = ''/lib/dist/bundles/acme-widgets-testing.umd.min.js'' \<rparr>"
proof (intro conjI allI impI)
  fix libDest entryPointDest v stem
  assume "libraryDestinationPath h ep = Inr libDest \<and>
      destinationPath h ep = Inr entryPointDest \<and>
      flatModuleFile h ep = Inr v \<and>
      ToString v = Inr stem"
  then show "destinationFiles h ep =
        Inr \<lparr> declarations = path_join h [entryPointDest, stem @ ''.d.ts''],
              metadata = path_join h [entryPointDest, stem @ ''.metadata.json''],
              fesm2015 = path_join h [libDest, ''fesm2015'', stem @ ''.js''],
              esm2015 = path_join h [libDest, ''esm2015'', sourceRelativePath h ep, stem @ ''.js''],
              umd = path_join h [libDest, ''bundles'', stem @ ''.umd.js''],
              umdMinified = path_join h [libDest, ''bundles'', stem @ ''.umd.min.js''] \<rparr>"
    by (simp add: destinationFiles_returns)
next
  fix df
  assume "destinationFiles h ep = Inr df"
  then show "\<exists>libDest entryPointDest v stem.
         libraryDestinationPath h ep = Inr libDest \<and>
         destinationPath h ep = Inr entryPointDest \<and>
         flatModuleFile h ep = Inr v \<and>
         ToString v = Inr stem"
    by (rule destinationFiles_Inr_D)
next
  fix ep' df df'
  assume a: "destinationFiles h ep = Inr df \<and> destinationFiles h ep' = Inr df' \<and>
      libraryDestinationPath h ep' = libraryDestinationPath h ep \<and>
      flatModuleFile h ep' = flatModuleFile h ep"
  then show "fesm2015 df' = fesm2015 df" and "umd df' = umd df"
    and "umdMinified df' = umdMinified df"
    by (auto simp: destinationFiles_def split: sum.splits)
next
  show "destinationFiles (posix cwd) acme_secondary =
     Inr \<lparr> declarations = ''/lib/dist/testing/acme-widgets-testing.d.ts'',
           metadata = ''/lib/dist/testing/acme-widgets-testing.metadata.json'',
           fesm2015 = ''/lib/dist/fesm2015/acme-widgets-testing.js'',
           esm2015 = ''/lib/dist/esm2015/testing/acme-widgets-testing.js'',
           umd = ''/lib/dist/bundles/acme-widgets-testing.umd.js'',
           umdMinified = ''/lib/dist/bundles/acme-widgets-testing.umd.min.js'' \<rparr>"
    by (rule acme_secondary_destinationFiles)
qed

theorem destinationFiles_layout_witness:
  "libraryDestinationPath (posix ''/'') acme_secondary = Inr ''/lib/dist'' \<and>
   destinationPath (posix ''/'') acme_secondary = Inr ''/lib/dist/testing'' \<and>
   flatModuleFile (posix ''/'') acme_secondary = Inr (JStr ''acme-widgets-testing'') \<and>
   ToString (JStr ''acme-widgets-testing'') = Inr ''acme-widgets-testing'' \<and>
   map_sum id esm2015 (destinationFiles (posix ''/'') acme_secondary) =
     Inr ''/lib/dist/esm2015/testing/acme-widgets-testing.js'' \<and>
   map_sum id fesm2015 (destinationFiles (posix ''/'') acme_secondary) =
     Inr ''/lib/dist/fesm2015/acme-widgets-testing.js''"
proof -
  let ?h = "posix ''/''"
  have hyp: "libraryDestinationPath ?h acme_secondary = Inr ''/lib/dist'' \<and>
      destinationPath ?h acme_secondary = Inr ''/lib/dist/testing'' \<and>
      flatModuleFile ?h acme_secondary = Inr (JStr ''acme-widgets-testing'') \<and>
      ToString (JStr ''acme-widgets-testing'') = Inr ''acme-widgets-testing''"
    by (simp add: acme_secondary_libDest acme_secondary_dest acme_secondary_flatModuleFile)
  from destinationFiles_layout [of ?h acme_secondary "''/''"] hyp
  have "destinationFiles ?h acme_secondary =
      Inr \<lparr> declarations = path_join ?h [''/lib/dist/testing'', ''acme-widgets-testing'' @ ''.d.ts''],
            metadata = path_join ?h [''/lib/dist/testing'', ''acme-widgets-testing'' @ ''.metadata.json''],
            fesm2015 = path_join ?h [''/lib/dist'', ''fesm2015'', ''acme-widgets-testing'' @ ''.js''],
            esm2015 = path_join ?h [''/lib/dist'', ''esm2015'', sourceRelativePath ?h acme_secondary,
                                    ''acme-widgets-testing'' @ ''.js''],
            umd = path_join ?h [''/lib/dist'', ''bundles'', ''acme-widgets-testing'' @ ''.umd.js''],
            umdMinified = path_join ?h [''/lib/dist'', ''bundles'', ''acme-widgets-testing'' @ ''.umd.min.js''] \<rparr>"
    by blast
  then have "map_sum id esm2015 (destinationFiles ?h acme_secondary) =
       Inr ''/lib/dist/esm2015/testing/acme-widgets-testing.js''"
    and "map_sum id fesm2015 (destinationFiles ?h acme_secondary) =
       Inr ''/lib/dist/fesm2015/acme-widgets-testing.js''"
    by (simp_all add: acme_secondary_relative posix_join_fesm2015 posix_join_esm2015)
  with hyp show ?thesis by simp
qed

section \<open>Overrides of the identifiers\<close>

lemma or_else_truthy: "a = Inr v \<Longrightarrow> ToBoolean v \<Longrightarrow> or_else a b = Inr v"
  by (simp add: or_else_def)

lemma or_else_falsy: "a = Inr v \<Longrightarrow> \<not> ToBoolean v \<Longrightarrow> or_else a b = b"
  by (simp add: or_else_def)

lemma concat_replace_empty:
  "sep \<noteq> [] \<Longrightarrow> concat (map (\<lambda>c. if c = x then sep else [c]) s) = [] \<longleftrightarrow> s = []"
  by (cases s) auto

lemma flattenModuleId_not_empty:
  assumes "moduleId h ep = Inr (JStr m)" and "m \<noteq> []" and "m \<noteq> ''@''"
    and "sep \<noteq> Some []"
  shows "flattenModuleId h ep sep \<noteq> Inr []"
proof -
  let ?s = "case sep of None \<Rightarrow> ''.'' | Some s \<Rightarrow> s"
  let ?m = "if startsWith m CHR ''@'' then drop 1 m else m"
  have s: "?s \<noteq> []" using assms(4) by (cases sep) auto
  have m: "?m \<noteq> []" using assms(2,3) by (cases m) (auto simp: startsWith_def)
  have "flattenModuleId h ep sep = Inr (concat (map (\<lambda>c. if c = CHR ''/'' then ?s else [c]) ?m))"
    using assms(1) by (simp add: flattenModuleId_def join_split_replace)
  then show ?thesis using s m by (simp add: concat_replace_empty del: concat_eq_Nil_conv)
qed

lemma overridden_gets:
  "dollar_get overridden ''lib.flatModuleFile'' = Inr (JStr ''widgets-bundle'')"
  "dollar_get overridden ''lib.umdId'' = Inr (JStr ''acmeWidgets'')"
  "dollar_get overridden ''lib.amdId'' = Inr (JStr ''acme/widgets'')"
  by (simp_all add: dollar_get_def overridden_def)

lemma overridden_default_raises:
  "flattenModuleId h overridden sep = Inl TypeError"
  by (simp add: flattenModuleId_def overridden_def)

lemma empty_overrides_gets:
  "dollar_get empty_overrides ''lib.flatModuleFile'' = Inr (JStr '''')"
  "dollar_get empty_overrides ''lib.umdId'' = Inr (JStr '''')"
  "dollar_get empty_overrides ''lib.amdId'' = Inr (JStr '''')"
  by (simp_all add: dollar_get_def empty_overrides_def)

lemma empty_overrides_moduleId: "moduleId h empty_overrides = Inr (JStr ''@acme/widgets'')"
  by (simp add: empty_overrides_def)

text \<open>
  Claim C8, as amended. When the lookup of \<^verbatim>\<open>lib.flatModuleFile\<close>, \<^verbatim>\<open>lib.umdId\<close> or
  \<^verbatim>\<open>lib.amdId\<close> gives a string that is not empty, the accessor returns that string,
  whatever the derived default would be (the default is not evaluated: the accessor
  returns also where the default would raise). When the lookup gives \<^verbatim>\<open>undefined\<close>,
  the accessor returns the derived default: \<^verbatim>\<open>flattenModuleId('-')\<close>,
  \<^verbatim>\<open>flattenModuleId()\<close> or \<^verbatim>\<open>moduleId\<close>.
\<close>

theorem override_precedence:
  "(\<forall>s. dollar_get ep ''lib.flatModuleFile'' = Inr (JStr s) \<and> s \<noteq> [] \<longrightarrow>
      flatModuleFile h ep = Inr (JStr s)) \<and>
   (\<forall>s. dollar_get ep ''lib.umdId'' = Inr (JStr s) \<and> s \<noteq> [] \<longrightarrow>
      umdId h ep = Inr (JStr s)) \<and>
   (\<forall>s. dollar_get ep ''lib.amdId'' = Inr (JStr s) \<and> s \<noteq> [] \<longrightarrow>
      amdId h ep = Inr (JStr s)) \<and>
   (dollar_get ep ''lib.flatModuleFile'' = Inr Undefined \<longrightarrow>
      flatModuleFile h ep = map_sum id JStr (flattenModuleId h ep (Some ''-''))) \<and>
   (dollar_get ep ''lib.umdId'' = Inr Undefined \<longrightarrow>
      umdId h ep = map_sum id JStr (flattenModuleId h ep None)) \<and>
   (dollar_get ep ''lib.amdId'' = Inr Undefined \<longrightarrow>
      amdId h ep = moduleId h ep)"
  by (simp add: flatModuleFile_def umdId_def amdId_def or_else_def)

theorem override_precedence_witness:
  "dollar_get overridden ''lib.flatModuleFile'' = Inr (JStr ''widgets-bundle'') \<and>
   dollar_get overridden ''lib.umdId'' = Inr (JStr ''acmeWidgets'') \<and>
   dollar_get overridden ''lib.amdId'' = Inr (JStr ''acme/widgets'') \<and>
   flattenModuleId (posix ''/'') overridden (Some ''-'') = Inl TypeError \<and>
   flatModuleFile (posix ''/'') overridden = Inr (JStr ''widgets-bundle'') \<and>
   umdId (posix ''/'') overridden = Inr (JStr ''acmeWidgets'') \<and>
   amdId (posix ''/'') overridden = Inr (JStr ''acme/widgets'') \<and>
   dollar_get acme_primary ''lib.flatModuleFile'' = Inr Undefined \<and>
   flatModuleFile (posix ''/'') acme_primary = Inr (JStr ''acme-widgets'')"
proof -
  let ?h = "posix ''/''"
  note inst = override_precedence [of overridden ?h]
  have ne: "''widgets-bundle'' \<noteq> []" "''acmeWidgets'' \<noteq> []" "''acme/widgets'' \<noteq> []"
    by simp_all
  from inst overridden_gets(1) ne(1)
  have 1: "flatModuleFile ?h overridden = Inr (JStr ''widgets-bundle'')" by blast
  from inst overridden_gets(2) ne(2)
  have 2: "umdId ?h overridden = Inr (JStr ''acmeWidgets'')" by blast
  from inst overridden_gets(3) ne(3)
  have 3: "amdId ?h overridden = Inr (JStr ''acme/widgets'')" by blast
  have u: "dollar_get acme_primary ''lib.flatModuleFile'' = Inr Undefined"
    by (simp add: dollar_get_def acme_primary_def)
  from override_precedence [of acme_primary ?h] u
  have "flatModuleFile ?h acme_primary =
      map_sum id JStr (flattenModuleId ?h acme_primary (Some ''-''))" by blast
  then have 4: "flatModuleFile ?h acme_primary = Inr (JStr ''acme-widgets'')"
    by (simp add: flattenModuleId_def acme_primary_moduleId startsWith_def)
  show ?thesis using 1 2 3 4 u overridden_gets overridden_default_raises by simp
qed

text \<open>
  The claim as stated, for every string, fails at the empty string: with the three
  options set to it, the accessors return the derived defaults.
\<close>

theorem override_empty_string_counterexample:
  "dollar_get empty_overrides ''lib.flatModuleFile'' = Inr (JStr '''') \<and>
   flatModuleFile (posix ''/'') empty_overrides = Inr (JStr ''acme-widgets'') \<and>
   dollar_get empty_overrides ''lib.umdId'' = Inr (JStr '''') \<and>
   umdId (posix ''/'') empty_overrides = Inr (JStr ''acme.widgets'') \<and>
   dollar_get empty_overrides ''lib.amdId'' = Inr (JStr '''') \<and>
   amdId (posix ''/'') empty_overrides = Inr (JStr ''@acme/widgets'')"
  by (simp add: flatModuleFile_def umdId_def amdId_def or_else_def flattenModuleId_def
      dollar_get_def empty_overrides_def startsWith_def)

text \<open>
  Claim C10. When the lookup of \<^verbatim>\<open>lib.flatModuleFile\<close>, \<^verbatim>\<open>lib.umdId\<close> or
  \<^verbatim>\<open>lib.amdId\<close> gives the empty string, or any other falsy value, the accessor is
  the derived default: \<^verbatim>\<open>flattenModuleId('-')\<close>, \<^verbatim>\<open>flattenModuleId()\<close> or
  \<^verbatim>\<open>moduleId\<close>. Unless the module identifier itself is empty or a lone \<^verbatim>\<open>@\<close>, the
  accessor then does not return the empty string.
\<close>

theorem falsy_override_falls_back:
  "(\<forall>v. dollar_get ep ''lib.flatModuleFile'' = Inr v \<and> \<not> ToBoolean v \<longrightarrow>
      flatModuleFile h ep = map_sum id JStr (flattenModuleId h ep (Some ''-''))) \<and>
   (\<forall>v. dollar_get ep ''lib.umdId'' = Inr v \<and> \<not> ToBoolean v \<longrightarrow>
      umdId h ep = map_sum id JStr (flattenModuleId h ep None)) \<and>
   (\<forall>v. dollar_get ep ''lib.amdId'' = Inr v \<and> \<not> ToBoolean v \<longrightarrow>
      amdId h ep = moduleId h ep) \<and>
   \<not> ToBoolean (JStr '''') \<and>
   (dollar_get ep ''lib.flatModuleFile'' = Inr (JStr '''') \<longrightarrow>
      flatModuleFile h ep = map_sum id JStr (flattenModuleId h ep (Some ''-''))) \<and>
   (dollar_get ep ''lib.umdId'' = Inr (JStr '''') \<longrightarrow>
      umdId h ep = map_sum id JStr (flattenModuleId h ep None)) \<and>
   (dollar_get ep ''lib.amdId'' = Inr (JStr '''') \<longrightarrow>
      amdId h ep = moduleId h ep) \<and>
   (\<forall>m. moduleId h ep = Inr (JStr m) \<and> m \<noteq> [] \<and> m \<noteq> ''@'' \<longrightarrow>
      (dollar_get ep ''lib.flatModuleFile'' = Inr (JStr '''') \<longrightarrow>
         flatModuleFile h ep \<noteq> Inr (JStr '''')) \<and>
      (dollar_get ep ''lib.umdId'' = Inr (JStr '''') \<longrightarrow> umdId h ep \<noteq> Inr (JStr '''')) \<and>
      (dollar_get ep ''lib.amdId'' = Inr (JStr '''') \<longrightarrow> amdId h ep \<noteq> Inr (JStr '''')))"
proof -
  have a: "\<And>m. moduleId h ep = Inr (JStr m) \<Longrightarrow> m \<noteq> [] \<Longrightarrow> m \<noteq> ''@'' \<Longrightarrow>
      map_sum id JStr (flattenModuleId h ep (Some ''-'')) \<noteq> Inr (JStr [])"
    using flattenModuleId_not_empty [of h ep _ "Some ''-''"]
    by (cases "flattenModuleId h ep (Some ''-'')") auto
  have b: "\<And>m. moduleId h ep = Inr (JStr m) \<Longrightarrow> m \<noteq> [] \<Longrightarrow> m \<noteq> ''@'' \<Longrightarrow>
      map_sum id JStr (flattenModuleId h ep None) \<noteq> Inr (JStr [])"
    using flattenModuleId_not_empty [of h ep _ None]
    by (cases "flattenModuleId h ep None") auto
  show ?thesis
    using a b by (auto simp: flatModuleFile_def umdId_def amdId_def or_else_def)
qed

theorem falsy_override_falls_back_witness:
  "dollar_get empty_overrides ''lib.flatModuleFile'' = Inr (JStr '''') \<and>
   dollar_get empty_overrides ''lib.umdId'' = Inr (JStr '''') \<and>
   dollar_get empty_overrides ''lib.amdId'' = Inr (JStr '''') \<and>
   flatModuleFile (posix ''/'') empty_overrides =
     map_sum id JStr (flattenModuleId (posix ''/'') empty_overrides (Some ''-'')) \<and>
   flatModuleFile (posix ''/'') empty_overrides = Inr (JStr ''acme-widgets'') \<and>
   umdId (posix ''/'') empty_overrides = Inr (JStr ''acme.widgets'') \<and>
   amdId (posix ''/'') empty_overrides = Inr (JStr ''@acme/widgets'')"
proof -
  let ?h = "posix ''/''"
  note inst = falsy_override_falls_back [of empty_overrides ?h]
  from inst empty_overrides_gets(1)
  have 1: "flatModuleFile ?h empty_overrides =
      map_sum id JStr (flattenModuleId ?h empty_overrides (Some ''-''))" by blast
  from inst empty_overrides_gets(2)
  have 2: "umdId ?h empty_overrides = map_sum id JStr (flattenModuleId ?h empty_overrides None)"
    by blast
  from inst empty_overrides_gets(3)
  have 3: "amdId ?h empty_overrides = moduleId ?h empty_overrides" by blast
  have f: "flattenModuleId ?h empty_overrides (Some ''-'') = Inr ''acme-widgets''"
    "flattenModuleId ?h empty_overrides None = Inr ''acme.widgets''"
    by (simp_all add: flattenModuleId_def empty_overrides_moduleId startsWith_def)
  show ?thesis using 1 2 3 f empty_overrides_gets empty_overrides_moduleId [of ?h] by simp
qed

section \<open>The configuration lookup\<close>

lemma typeof_object_iff:
  "typeof v = ''object'' \<longleftrightarrow> v = Null \<or> (\<exists>xs. v = JArr xs) \<or> (\<exists>kvs. v = JObj kvs)"
  by (cases v) simp_all

lemma lookup_safe_props_no_shadow:
  "lookup_safe_props kvs \<Longrightarrow> map_of kvs ''hasOwnProperty'' = None"
  by (induction kvs) auto

lemma lookup_safe_props_map_of:
  "lookup_safe_props kvs \<Longrightarrow> map_of kvs k = Some v \<Longrightarrow> lookup_safe v"
  by (induction kvs) (auto split: if_splits)

lemma lookup_safe_list_nth:
  "lookup_safe_list xs \<Longrightarrow> i < length xs \<Longrightarrow> lookup_safe (xs ! i)"
  by (induction xs arbitrary: i) (auto simp: nth_Cons split: nat.splits)

lemma index_of_key_less: "index_of_key n k = Some i \<Longrightarrow> i < n"
  by (auto simp: index_of_key_def find_Some_iff)

lemma lookup_safe_getOwn: "lookup_safe v \<Longrightarrow> lookup_safe (getOwn v k)"
proof (cases v)
  case (JArr xs)
  assume "lookup_safe v"
  with JArr show ?thesis
    by (auto simp: lookup_safe_list_nth index_of_key_less split: option.splits)
next
  case (JObj kvs)
  assume "lookup_safe v"
  with JObj show ?thesis
    by (auto simp: lookup_safe_props_map_of split: option.splits)
qed (auto split: option.splits)

lemma lookup_safe_call_hasOwnProperty:
  "lookup_safe v \<Longrightarrow> typeof v = ''object'' \<Longrightarrow> call_hasOwnProperty v k = Inr (hasOwn v k)"
  by (cases v) (auto simp: lookup_safe_props_no_shadow)

lemma get_loop_returns:
  "lookup_safe v \<Longrightarrow> \<exists>r. get_loop v parts = Inr r"
proof (induction parts arbitrary: v)
  case Nil
  show ?case by simp
next
  case (Cons key parts)
  show ?case
  proof (cases "typeof v = ''object''")
    case False
    then show ?thesis by simp
  next
    case True
    with Cons.prems have c: "call_hasOwnProperty v key = Inr (hasOwn v key)"
      by (rule lookup_safe_call_hasOwnProperty)
    show ?thesis
    proof (cases "hasOwn v key")
      case False
      with True c show ?thesis by simp
    next
      case h: True
      from Cons.prems have "lookup_safe (getOwn v key)" by (rule lookup_safe_getOwn)
      then obtain r where "get_loop (getOwn v key) parts = Inr r"
        using Cons.IH by blast
      with True c h show ?thesis by simp
    qed
  qed
qed

lemma dollar_get_returns:
  "lookup_safe (ngPackageJson ep) \<Longrightarrow> \<exists>v. dollar_get ep key = Inr v"
  by (simp add: dollar_get_def get_loop_returns)

text \<open>An absent segment ends the lookup with \<^verbatim>\<open>undefined\<close>.\<close>

lemma get_loop_absent:
  "lookup_safe v \<Longrightarrow> \<not> hasOwn v key \<Longrightarrow> get_loop v (key # parts) = Inr Undefined"
  by (cases "typeof v = ''object''") (simp_all add: lookup_safe_call_hasOwnProperty)

text \<open>
  Claim C2 says that \<^verbatim>\<open>$get\<close> yields \<^verbatim>\<open>undefined\<close> without failing whenever an
  intermediate value is not a mapping. The code does not do so at \<^verbatim>\<open>null\<close>:
  \<^verbatim>\<open>typeof null\<close> is \<^verbatim>\<open>'object'\<close>, the guard lets \<^verbatim>\<open>null\<close> through and
  \<^verbatim>\<open>null.hasOwnProperty(key)\<close> raises a \<^verbatim>\<open>TypeError\<close>. With \<^verbatim>\<open>lib\<close> set to
  \<^verbatim>\<open>null\<close> the lookup of \<^verbatim>\<open>lib.entryFile\<close> raises, and so does every lookup in a
  configuration that is \<^verbatim>\<open>null\<close> itself.
\<close>

theorem dollar_get_null_intermediate_raises:
  "dollar_get null_lib ''lib.entryFile'' = Inl TypeError \<and>
   dollar_get (NgEntryPoint [] Null ''/lib'' None) ''dest'' = Inl TypeError"
  by (simp add: dollar_get_def null_lib_def)

section \<open>Which accessors return and which raise\<close>

lemma moduleId_string:
  "map_of (packageJson (root ep)) ''name'' = Some (JStr n) \<Longrightarrow> \<exists>s. moduleId h ep = Inr (JStr s)"
proof (induction ep rule: root.induct)
  case (1 pj cfg bp p)
  then obtain s where "moduleId h p = Inr (JStr s)" by auto
  then show ?case by simp
next
  case (2 pj cfg bp)
  then show ?case by simp
qed

lemma flattenModuleId_returns:
  "moduleId h ep = Inr (JStr m) \<Longrightarrow> \<exists>s. flattenModuleId h ep sep = Inr s"
  by (simp add: flattenModuleId_def Let_def)

lemma or_else_returns:
  "a = Inr v \<Longrightarrow> b = Inr w \<Longrightarrow> \<exists>r. or_else a b = Inr r"
  by (simp add: or_else_def)

lemma error_is_TypeError: "(e::error) = TypeError"
  by (cases e) simp

lemma entryFilePath_cases:
  "(\<forall>s. entryFile ep = Inr (JStr s) \<longrightarrow> entryFilePath h ep = Inr (path_resolve h [basePath ep, s])) \<and>
   ((\<forall>s. entryFile ep \<noteq> Inr (JStr s)) \<longrightarrow> entryFilePath h ep = Inl TypeError)"
  by (cases "entryFile ep"; cases "projr (entryFile ep)")
     (auto simp: entryFilePath_def resolve_with_def intro!: error_is_TypeError
        split: sum.splits jsval.splits)


lemma libraryDestinationPath_cases:
  "(\<forall>d. dollar_get (root ep) ''dest'' = Inr (JStr d) \<longrightarrow>
      libraryDestinationPath h ep = Inr (path_resolve h [basePath (root ep), d])) \<and>
   ((\<forall>d. dollar_get (root ep) ''dest'' \<noteq> Inr (JStr d)) \<longrightarrow>
      libraryDestinationPath h ep = Inl TypeError)"
  by (cases "dollar_get (root ep) ''dest''"; cases "projr (dollar_get (root ep) ''dest'')")
     (auto simp: libraryDestinationPath_root_dest resolve_with_def intro!: error_is_TypeError
        split: sum.splits jsval.splits)

lemma destinationPath_returns_iff:
  "(\<exists>p. destinationPath h ep = Inr p) \<longleftrightarrow> (\<exists>d. libraryDestinationPath h ep = Inr d)"
  by (cases "parent ep") (auto simp: destinationPath_def split: sum.splits)

lemma flatModuleFile_returns:
  assumes "\<exists>v. dollar_get ep ''lib.flatModuleFile'' = Inr v"
    and "moduleId h ep = Inr (JStr m)"
  shows "\<exists>v. flatModuleFile h ep = Inr v"
proof -
  obtain s where "flattenModuleId h ep (Some ''-'') = Inr s"
    using flattenModuleId_returns [OF assms(2)] by blast
  then show ?thesis using assms(1) by (auto simp: flatModuleFile_def or_else_def)
qed

lemma umdId_returns:
  assumes "\<exists>v. dollar_get ep ''lib.umdId'' = Inr v"
    and "moduleId h ep = Inr (JStr m)"
  shows "\<exists>v. umdId h ep = Inr v"
proof -
  obtain s where "flattenModuleId h ep None = Inr s"
    using flattenModuleId_returns [OF assms(2)] by blast
  then show ?thesis using assms(1) by (auto simp: umdId_def or_else_def)
qed

lemma amdId_returns:
  assumes "\<exists>v. dollar_get ep ''lib.amdId'' = Inr v"
    and "moduleId h ep = Inr m"
  shows "\<exists>v. amdId h ep = Inr v"
  using assms by (auto simp: amdId_def or_else_def)

lemma flatModuleFile_string:
  assumes "dollar_get ep ''lib.flatModuleFile'' = Inr Undefined \<or>
      (\<exists>s. dollar_get ep ''lib.flatModuleFile'' = Inr (JStr s))"
    and "moduleId h ep = Inr (JStr m)"
  shows "\<exists>s. flatModuleFile h ep = Inr (JStr s)"
proof -
  obtain s where "flattenModuleId h ep (Some ''-'') = Inr s"
    using flattenModuleId_returns [OF assms(2)] by blast
  then show ?thesis using assms(1) by (auto simp: flatModuleFile_def or_else_def)
qed

lemma destinationFiles_returns_string:
  assumes "libraryDestinationPath h ep = Inr d"
    and "flatModuleFile h ep = Inr (JStr s)"
  shows "\<exists>df. destinationFiles h ep = Inr df"
proof -
  obtain p where "destinationPath h ep = Inr p"
    using assms(1) destinationPath_returns_iff [of h ep] by blast
  then show ?thesis using assms by (simp add: destinationFiles_def)
qed

lemma flattenModuleId_not_string:
  "moduleId h ep = Inr Undefined \<Longrightarrow> flattenModuleId h ep sep = Inl TypeError"
  by (simp add: flattenModuleId_def Let_def)

lemma acme_secondary_lookup_safe:
  "lookup_safe (ngPackageJson acme_secondary)"
  "lookup_safe (ngPackageJson (root acme_secondary))"
  by (simp_all add: acme_secondary_root) (simp_all add: acme_secondary_def acme_primary_def)

lemma acme_secondary_entryFile: "entryFile acme_secondary = Inr (JStr ''index.ts'')"
  by (simp add: entryFile_def dollar_get_def acme_secondary_def)

lemma posix_resolve_testing_index:
  "path_resolve (posix cwd) [''/lib/testing'', ''index.ts''] = ''/lib/testing/index.ts''"
  by (simp add: posix_def posix_resolve_def startsWith_def normalizeString_def)

lemma unconfigured_facts:
  "lookup_safe (ngPackageJson unconfigured)"
  "root unconfigured = unconfigured"
  "parent unconfigured = None"
  "map_of (packageJson unconfigured) ''name'' = None"
  "entryFile unconfigured = Inr Undefined"
  "dollar_get unconfigured ''dest'' = Inr Undefined"
  "dollar_get unconfigured ''lib.flatModuleFile'' = Inr Undefined"
  "dollar_get unconfigured ''lib.umdId'' = Inr Undefined"
  by (simp_all add: unconfigured_def entryFile_def dollar_get_def)

text \<open>
  Claim C1, as amended. Take an entry point whose configuration, and whose root's
  configuration, hold no \<^verbatim>\<open>null\<close> and no own property named \<^verbatim>\<open>hasOwnProperty\<close>.
  The lookups return: \<^verbatim>\<open>$get\<close> for every key, with \<^verbatim>\<open>undefined\<close> when a segment is
  absent, and so \<open>entryFile\<close>, \<open>cssUrl\<close> and \<open>umdModuleIds\<close>; \<open>moduleId\<close> and
  \<open>amdId\<close> of a parentless entry point (\<open>moduleId\<close> is \<^verbatim>\<open>undefined\<close> when the name
  is absent). A lookup that is passed on to the path module or to a string method
  raises a \<^verbatim>\<open>TypeError\<close> when it is not a string: \<open>entryFilePath\<close> returns when
  \<^verbatim>\<open>lib.entryFile\<close> is a string and raises otherwise; \<open>libraryDestinationPath\<close> and
  \<open>destinationPath\<close> return when the root's \<^verbatim>\<open>dest\<close> is a string and raise
  otherwise; \<open>flatModuleFile\<close> and \<open>umdId\<close> of a parentless entry point without
  a name raise when they are not overridden. When the root's name is a string,
  \<open>moduleId\<close>, \<open>flatModuleFile\<close>, \<open>umdId\<close> and \<open>amdId\<close> return; when moreover the
  root's \<^verbatim>\<open>dest\<close> is a string and \<^verbatim>\<open>lib.flatModuleFile\<close> is a string or absent,
  \<open>destinationFiles\<close> returns.
\<close>

theorem lookups_return_and_uses_raise:
  assumes "lookup_safe (ngPackageJson ep)" and "lookup_safe (ngPackageJson (root ep))"
  shows
  "(\<forall>key. \<exists>v. dollar_get ep key = Inr v) \<and>
   (\<forall>k parts. \<not> hasOwn (ngPackageJson ep) k \<longrightarrow>
      get_loop (ngPackageJson ep) (k # parts) = Inr Undefined) \<and>
   (\<exists>v. entryFile ep = Inr v) \<and> (\<exists>v. cssUrl ep = Inr v) \<and> (\<exists>v. umdModuleIds ep = Inr v) \<and>
   (parent ep = None \<longrightarrow>
      moduleId h ep = Inr (getOwn (JObj (packageJson ep)) ''name'') \<and>
      (\<exists>v. amdId h ep = Inr v)) \<and>
   (parent ep = None \<and> map_of (packageJson ep) ''name'' = None \<longrightarrow>
      moduleId h ep = Inr Undefined \<and>
      (dollar_get ep ''lib.flatModuleFile'' = Inr Undefined \<longrightarrow>
         flatModuleFile h ep = Inl TypeError) \<and>
      (dollar_get ep ''lib.umdId'' = Inr Undefined \<longrightarrow> umdId h ep = Inl TypeError)) \<and>
   (\<forall>s. entryFile ep = Inr (JStr s) \<longrightarrow>
      entryFilePath h ep = Inr (path_resolve h [basePath ep, s])) \<and>
   ((\<forall>s. entryFile ep \<noteq> Inr (JStr s)) \<longrightarrow> entryFilePath h ep = Inl TypeError) \<and>
   (\<forall>d. dollar_get (root ep) ''dest'' = Inr (JStr d) \<longrightarrow>
      libraryDestinationPath h ep = Inr (path_resolve h [basePath (root ep), d]) \<and>
      (\<exists>p. destinationPath h ep = Inr p)) \<and>
   ((\<forall>d. dollar_get (root ep) ''dest'' \<noteq> Inr (JStr d)) \<longrightarrow>
      libraryDestinationPath h ep = Inl TypeError \<and> destinationPath h ep = Inl TypeError) \<and>
   (\<forall>n. map_of (packageJson (root ep)) ''name'' = Some (JStr n) \<longrightarrow>
      (\<exists>s. moduleId h ep = Inr (JStr s)) \<and>
      (\<exists>v. flatModuleFile h ep = Inr v) \<and>
      (\<exists>v. umdId h ep = Inr v) \<and>
      (\<exists>v. amdId h ep = Inr v) \<and>
      (\<forall>d. dollar_get (root ep) ''dest'' = Inr (JStr d) \<and>
           (dollar_get ep ''lib.flatModuleFile'' = Inr Undefined \<or>
            (\<exists>s. dollar_get ep ''lib.flatModuleFile'' = Inr (JStr s))) \<longrightarrow>
         (\<exists>df. destinationFiles h ep = Inr df)))"
proof -
  have get: "\<And>key. \<exists>v. dollar_get ep key = Inr v"
    using assms(1) by (rule dollar_get_returns)
  have absent: "\<And>k parts. \<not> hasOwn (ngPackageJson ep) k \<Longrightarrow>
      get_loop (ngPackageJson ep) (k # parts) = Inr Undefined"
    using assms(1) by (rule get_loop_absent)
  have simple: "(\<exists>v. entryFile ep = Inr v) \<and> (\<exists>v. cssUrl ep = Inr v) \<and>
      (\<exists>v. umdModuleIds ep = Inr v)"
    using get by (simp add: entryFile_def cssUrl_def umdModuleIds_def)
  have prim: "parent ep = None \<Longrightarrow>
      moduleId h ep = Inr (getOwn (JObj (packageJson ep)) ''name'') \<and>
      (\<exists>v. amdId h ep = Inr v)"
    using amdId_returns [OF get, of h] by (simp add: moduleId_primary)
  have noname: "parent ep = None \<and> map_of (packageJson ep) ''name'' = None \<Longrightarrow>
      moduleId h ep = Inr Undefined \<and>
      (dollar_get ep ''lib.flatModuleFile'' = Inr Undefined \<longrightarrow>
         flatModuleFile h ep = Inl TypeError) \<and>
      (dollar_get ep ''lib.umdId'' = Inr Undefined \<longrightarrow> umdId h ep = Inl TypeError)"
    by (simp add: moduleId_primary flatModuleFile_def umdId_def or_else_def
        flattenModuleId_not_string)
  have lib: "\<And>d. dollar_get (root ep) ''dest'' = Inr (JStr d) \<Longrightarrow>
      libraryDestinationPath h ep = Inr (path_resolve h [basePath (root ep), d]) \<and>
      (\<exists>p. destinationPath h ep = Inr p)"
    using libraryDestinationPath_cases [of ep h] destinationPath_returns_iff [of h ep]
    by simp
  have nolib: "(\<forall>d. dollar_get (root ep) ''dest'' \<noteq> Inr (JStr d)) \<Longrightarrow>
      libraryDestinationPath h ep = Inl TypeError \<and> destinationPath h ep = Inl TypeError"
  proof -
    assume "\<forall>d. dollar_get (root ep) ''dest'' \<noteq> Inr (JStr d)"
    then have l: "libraryDestinationPath h ep = Inl TypeError"
      using libraryDestinationPath_cases [of ep h] by blast
    then have "\<not> (\<exists>p. destinationPath h ep = Inr p)"
      by (simp add: destinationPath_returns_iff)
    then have "destinationPath h ep = Inl TypeError"
      by (cases "destinationPath h ep") (auto intro: error_is_TypeError)
    with l show ?thesis by simp
  qed
  have named: "\<And>n. map_of (packageJson (root ep)) ''name'' = Some (JStr n) \<Longrightarrow>
      (\<exists>s. moduleId h ep = Inr (JStr s)) \<and>
      (\<exists>v. flatModuleFile h ep = Inr v) \<and>
      (\<exists>v. umdId h ep = Inr v) \<and>
      (\<exists>v. amdId h ep = Inr v) \<and>
      (\<forall>d. dollar_get (root ep) ''dest'' = Inr (JStr d) \<and>
           (dollar_get ep ''lib.flatModuleFile'' = Inr Undefined \<or>
            (\<exists>s. dollar_get ep ''lib.flatModuleFile'' = Inr (JStr s))) \<longrightarrow>
         (\<exists>df. destinationFiles h ep = Inr df))"
  proof -
    fix n assume "map_of (packageJson (root ep)) ''name'' = Some (JStr n)"
    then obtain m where m: "moduleId h ep = Inr (JStr m)"
      using moduleId_string [of ep n h] by blast
    have "\<exists>df. destinationFiles h ep = Inr df"
      if "dollar_get (root ep) ''dest'' = Inr (JStr d) \<and>
           (dollar_get ep ''lib.flatModuleFile'' = Inr Undefined \<or>
            (\<exists>s. dollar_get ep ''lib.flatModuleFile'' = Inr (JStr s)))" for d
    proof -
      from that lib have "libraryDestinationPath h ep = Inr (path_resolve h [basePath (root ep), d])"
        by blast
      moreover from that m obtain s where "flatModuleFile h ep = Inr (JStr s)"
        using flatModuleFile_string [of ep h m] by blast
      ultimately show ?thesis by (rule destinationFiles_returns_string)
    qed
    then show "(\<exists>s. moduleId h ep = Inr (JStr s)) \<and>
      (\<exists>v. flatModuleFile h ep = Inr v) \<and>
      (\<exists>v. umdId h ep = Inr v) \<and>
      (\<exists>v. amdId h ep = Inr v) \<and>
      (\<forall>d. dollar_get (root ep) ''dest'' = Inr (JStr d) \<and>
           (dollar_get ep ''lib.flatModuleFile'' = Inr Undefined \<or>
            (\<exists>s. dollar_get ep ''lib.flatModuleFile'' = Inr (JStr s))) \<longrightarrow>
         (\<exists>df. destinationFiles h ep = Inr df))"
      using m flatModuleFile_returns [OF get m] umdId_returns [OF get m] amdId_returns [OF get m]
      by blast
  qed
  show ?thesis
    using get absent simple prim noname entryFilePath_cases [of ep h] lib nolib named
    by blast
qed


theorem lookups_return_and_uses_raise_witness:
  "lookup_safe (ngPackageJson acme_secondary) \<and>
   lookup_safe (ngPackageJson (root acme_secondary)) \<and>
   entryFile acme_secondary = Inr (JStr ''index.ts'') \<and>
   entryFilePath (posix ''/'') acme_secondary = Inr ''/lib/testing/index.ts'' \<and>
   (\<exists>df. destinationFiles (posix ''/'') acme_secondary = Inr df) \<and>
   lookup_safe (ngPackageJson unconfigured) \<and>
   lookup_safe (ngPackageJson (root unconfigured)) \<and>
   cssUrl unconfigured = Inr Undefined \<and>
   moduleId (posix ''/'') unconfigured = Inr Undefined \<and>
   entryFilePath (posix ''/'') unconfigured = Inl TypeError \<and>
   libraryDestinationPath (posix ''/'') unconfigured = Inl TypeError \<and>
   flatModuleFile (posix ''/'') unconfigured = Inl TypeError \<and>
   umdId (posix ''/'') unconfigured = Inl TypeError"
proof -
  let ?h = "posix ''/''"
  note sec = lookups_return_and_uses_raise [OF acme_secondary_lookup_safe, of ?h]
  have us: "lookup_safe (ngPackageJson (root unconfigured))"
    by (simp add: unconfigured_facts)
  note unc = lookups_return_and_uses_raise [OF unconfigured_facts(1) us, of ?h]
  from sec acme_secondary_entryFile
  have "entryFilePath ?h acme_secondary = Inr (path_resolve ?h [basePath acme_secondary, ''index.ts''])"
    by blast
  then have 1: "entryFilePath ?h acme_secondary = Inr ''/lib/testing/index.ts''"
    by (simp add: posix_resolve_testing_index) (simp add: acme_secondary_def posix_resolve_testing_index)
  have d: "dollar_get (root acme_secondary) ''dest'' = Inr (JStr ''dist'')"
    by (simp add: acme_secondary_root acme_primary_dest)
  have n: "map_of (packageJson (root acme_secondary)) ''name'' = Some (JStr ''@acme/widgets'')"
    by (simp add: acme_secondary_root) (simp add: acme_primary_def)
  have f: "dollar_get acme_secondary ''lib.flatModuleFile'' = Inr Undefined"
    by (simp add: dollar_get_def acme_secondary_def)
  from sec d n f have 2: "\<exists>df. destinationFiles ?h acme_secondary = Inr df"
    by blast
  have ne: "\<forall>s. entryFile unconfigured \<noteq> Inr (JStr s)"
    by (simp add: unconfigured_facts)
  have nd: "\<forall>d. dollar_get (root unconfigured) ''dest'' \<noteq> Inr (JStr d)"
    by (simp add: unconfigured_facts)
  have a: "\<not> hasOwn (ngPackageJson unconfigured) ''lib''"
    by (simp add: unconfigured_def)
  from unc a have "get_loop (ngPackageJson unconfigured) (''lib'' # [''cssUrl'']) = Inr Undefined"
    by blast
  then have 3: "cssUrl unconfigured = Inr Undefined"
    by (simp add: cssUrl_def dollar_get_def)
  from unc unconfigured_facts(3,4) have 4: "moduleId ?h unconfigured = Inr Undefined"
    by blast
  from unc ne have 5: "entryFilePath ?h unconfigured = Inl TypeError"
    by blast
  from unc nd have 6: "libraryDestinationPath ?h unconfigured = Inl TypeError"
    by blast
  from unc unconfigured_facts(3,4,7) have 7: "flatModuleFile ?h unconfigured = Inl TypeError"
    by blast
  from unc unconfigured_facts(3,4,8) have 8: "umdId ?h unconfigured = Inl TypeError"
    by blast
  show ?thesis
    using 1 2 3 4 5 6 7 8 acme_secondary_lookup_safe acme_secondary_entryFile us
      unconfigured_facts(1)
    by simp
qed

text \<open>
  The claim as stated, that no accessor ever raises, fails for the entry point with an
  empty manifest and an empty configuration: the lookups of \<^verbatim>\<open>lib.entryFile\<close>, of
  \<^verbatim>\<open>dest\<close> and of the name give \<^verbatim>\<open>undefined\<close>, and the accessors that use them
  raise.
\<close>

theorem absent_lookup_raises_counterexample:
  "entryFile unconfigured = Inr Undefined \<and>
   entryFilePath (posix ''/'') unconfigured = Inl TypeError \<and>
   dollar_get unconfigured ''dest'' = Inr Undefined \<and>
   libraryDestinationPath (posix ''/'') unconfigured = Inl TypeError \<and>
   destinationPath (posix ''/'') unconfigured = Inl TypeError \<and>
   moduleId (posix ''/'') unconfigured = Inr Undefined \<and>
   flatModuleFile (posix ''/'') unconfigured = Inl TypeError \<and>
   umdId (posix ''/'') unconfigured = Inl TypeError \<and>
   destinationFiles (posix ''/'') unconfigured = Inl TypeError"
  by (simp add: unconfigured_def entryFile_def entryFilePath_def dollar_get_def resolve_with_def
      destinationPath_def flatModuleFile_def umdId_def or_else_def flattenModuleId_def
      destinationFiles_def)

section \<open>Side effects\<close>

text \<open>
  Claim C9. \<open>sideEffects\<close> is \<^verbatim>\<open>false\<close> when the manifest has no field
  \<^verbatim>\<open>sideEffects\<close>. When the field holds a boolean or a list, as its type
  \<^verbatim>\<open>boolean | string[]\<close> says, \<open>sideEffects\<close> is that value; the empty list comes
  back as the empty list, which is not \<^verbatim>\<open>false\<close>. In general a truthy value of the
  field comes back as it is and a falsy one as \<^verbatim>\<open>false\<close>.
\<close>

theorem sideEffects_default_and_verbatim:
  "sideEffects ep =
     (case map_of (packageJson ep) ''sideEffects'' of
        None \<Rightarrow> JBool False
      | Some v \<Rightarrow> if ToBoolean v then v else JBool False) \<and>
   (map_of (packageJson ep) ''sideEffects'' = None \<longrightarrow> sideEffects ep = JBool False) \<and>
   (\<forall>b. map_of (packageJson ep) ''sideEffects'' = Some (JBool b) \<longrightarrow> sideEffects ep = JBool b) \<and>
   (\<forall>xs. map_of (packageJson ep) ''sideEffects'' = Some (JArr xs) \<longrightarrow>
      sideEffects ep = JArr xs) \<and>
   (map_of (packageJson ep) ''sideEffects'' = Some (JArr []) \<longrightarrow>
      sideEffects ep = JArr [] \<and> sideEffects ep \<noteq> JBool False)"
  by (auto simp: sideEffects_def split: option.splits)

theorem sideEffects_default_and_verbatim_witness:
  "sideEffects (NgEntryPoint [(''name'', JStr ''pkg'')] (JObj []) ''/lib'' None) = JBool False \<and>
   sideEffects (NgEntryPoint [(''sideEffects'', JBool True)] (JObj []) ''/lib'' None) = JBool True \<and>
   sideEffects (NgEntryPoint [(''sideEffects'', JBool False)] (JObj []) ''/lib'' None) = JBool False \<and>
   sideEffects (NgEntryPoint [(''sideEffects'', JArr [])] (JObj []) ''/lib'' None) = JArr [] \<and>
   sideEffects (NgEntryPoint [(''sideEffects'', JArr [JStr ''*.css''])] (JObj []) ''/lib'' None) =
     JArr [JStr ''*.css'']"
proof -
  let ?ep = "\<lambda>pj. NgEntryPoint pj (JObj []) ''/lib'' None"
  have 1: "sideEffects (?ep [(''name'', JStr ''pkg'')]) = JBool False"
    using sideEffects_default_and_verbatim [of "?ep [(''name'', JStr ''pkg'')]"] by simp
  have 2: "sideEffects (?ep [(''sideEffects'', JBool True)]) = JBool True"
    using sideEffects_default_and_verbatim [of "?ep [(''sideEffects'', JBool True)]"] by simp
  have 3: "sideEffects (?ep [(''sideEffects'', JBool False)]) = JBool False"
    using sideEffects_default_and_verbatim [of "?ep [(''sideEffects'', JBool False)]"] by simp
  have 4: "sideEffects (?ep [(''sideEffects'', JArr [])]) = JArr []"
    using sideEffects_default_and_verbatim [of "?ep [(''sideEffects'', JArr [])]"] by simp
  have 5: "sideEffects (?ep [(''sideEffects'', JArr [JStr ''*.css''])]) = JArr [JStr ''*.css'']"
    using sideEffects_default_and_verbatim [of "?ep [(''sideEffects'', JArr [JStr ''*.css''])]"]
    by simp
  show ?thesis using 1 2 3 4 5 by simp
qed

end
